theory Spec2Isabelle
  imports Complex_Main "HOL-Library.Sublist"
begin

section \<open>JavaScript values\<close>

text \<open>
  The request options, the tool schemas and the payloads of the stream chunks are
  untyped JavaScript values (\<^verbatim>\<open>unknown\<close> in the TypeScript source). An object is the
  list of its own enumerable properties in enumeration order; a property whose value is
  \<open>Undef\<close> is present (\<^verbatim>\<open>"k" in o\<close> holds) but is not printed by
  \<^verbatim>\<open>JSON.stringify\<close>. Numbers are reals: \<^verbatim>\<open>NaN\<close> and the infinities are left out.
\<close>

datatype js =
    Undef
  | Null
  | Bool bool
  | Num real
  | Str string
  | Arr "js list"
  | Obj "(string \<times> js) list"

text \<open>\<^verbatim>\<open>typeof v\<close>.\<close>

fun typeof :: "js \<Rightarrow> string" where
  "typeof Undef = ''undefined''"
| "typeof Null = ''object''"
| "typeof (Bool b) = ''boolean''"
| "typeof (Num n) = ''number''"
| "typeof (Str s) = ''string''"
| "typeof (Arr xs) = ''object''"
| "typeof (Obj kvs) = ''object''"

text \<open>Truthiness, as tested by \<^verbatim>\<open>if (v)\<close>, \<^verbatim>\<open>!v\<close>, \<^verbatim>\<open>a && b\<close> and \<^verbatim>\<open>a || b\<close>.\<close>

fun truthy :: "js \<Rightarrow> bool" where
  "truthy Undef = False"
| "truthy Null = False"
| "truthy (Bool b) = b"
| "truthy (Num n) = (n \<noteq> 0)"
| "truthy (Str s) = (s \<noteq> [])"
| "truthy (Arr xs) = True"
| "truthy (Obj kvs) = True"

text \<open>\<^verbatim>\<open>v === undefined || v === null\<close>, the test behind \<^verbatim>\<open>??\<close> and \<^verbatim>\<open>?.\<close>.\<close>

fun nullish :: "js \<Rightarrow> bool" where
  "nullish Undef = True"
| "nullish Null = True"
| "nullish v = False"

fun isArray :: "js \<Rightarrow> bool" where
  "isArray (Arr xs) = True"
| "isArray v = False"

text \<open>
  Property read \<^verbatim>\<open>v.k\<close> for the property names the source reads. None of them is an
  array index, \<^verbatim>\<open>length\<close> or a property of a built-in prototype, so the read of an
  array or of a primitive gives \<^verbatim>\<open>undefined\<close>. The read of \<^verbatim>\<open>undefined\<close> or
  \<^verbatim>\<open>null\<close> throws in JavaScript: every place of the source where that can happen
  tests \<open>nullish\<close> first in this model.
\<close>

fun js_get :: "string \<Rightarrow> js \<Rightarrow> js" where
  "js_get k (Obj kvs) = (case map_of kvs k of None \<Rightarrow> Undef | Some v \<Rightarrow> v)"
| "js_get k v = Undef"

text \<open>\<^verbatim>\<open>"k" in v\<close> for an object or an array \<open>v\<close>, on the same property names.\<close>

fun js_in :: "string \<Rightarrow> js \<Rightarrow> bool" where
  "js_in k (Obj kvs) = (k \<in> set (map fst kvs))"
| "js_in k v = False"

text \<open>
  Assignment \<^verbatim>\<open>o[k] = v\<close> on a plain object: an existing property keeps its place,
  a new one is appended. Assigning to \<^verbatim>\<open>__proto__\<close> changes the prototype (or nothing)
  and creates no own property. JavaScript enumerates the properties whose names are array
  indices first; the model keeps them where they were added, and no statement below
  depends on the place of such a property.
\<close>

fun assign :: "string \<Rightarrow> js \<Rightarrow> (string \<times> js) list \<Rightarrow> (string \<times> js) list" where
  "assign k v [] = [(k, v)]"
| "assign k v ((k', v') # kvs) =
     (if k = k' then (k, v) # kvs else (k', v') # assign k v kvs)"

fun js_set :: "string \<Rightarrow> js \<Rightarrow> js \<Rightarrow> js" where
  "js_set k v (Obj kvs) = (if k = ''__proto__'' then Obj kvs else Obj (assign k v kvs))"
| "js_set k v w = w"

text \<open>\<^verbatim>\<open>delete o[k]\<close>.\<close>

fun js_delete :: "string \<Rightarrow> js \<Rightarrow> js" where
  "js_delete k (Obj kvs) = Obj (filter (\<lambda>p. fst p \<noteq> k) kvs)"
| "js_delete k w = w"

text \<open>
  A plain object: its own properties have distinct names, as those of every JavaScript
  object do.
\<close>

fun distinct_keys :: "js \<Rightarrow> bool" where
  "distinct_keys (Obj kvs) = distinct (map fst kvs)"
| "distinct_keys v = False"

text \<open>The elements of an array, and \<^verbatim>\<open>a[i]\<close>, which is \<^verbatim>\<open>undefined\<close> out of range.\<close>

fun elements :: "js \<Rightarrow> js list" where
  "elements (Arr xs) = xs"
| "elements v = []"

definition js_index :: "nat \<Rightarrow> js \<Rightarrow> js" where
  "js_index i a = (if i < length (elements a) then elements a ! i else Undef)"

text \<open>The string of a string value (used only under \<open>typeof v = ''string''\<close>).\<close>

fun str_of :: "js \<Rightarrow> string" where
  "str_of (Str s) = s"
| "str_of v = []"

text \<open>
  \<^verbatim>\<open>Object.entries(v)\<close>: the own properties of an object; the elements of an array
  under their decimal indices.
\<close>

fun decimal :: "nat \<Rightarrow> string" where
  "decimal n =
     (if n < 10 then [char_of (48 + n)] else decimal (n div 10) @ [char_of (48 + n mod 10)])"

fun entries :: "js \<Rightarrow> (string \<times> js) list" where
  "entries (Obj kvs) = kvs"
| "entries (Arr xs) = zip (map decimal [0..<length xs]) xs"
| "entries v = []"

text \<open>\<^verbatim>\<open>Object.keys(v)\<close>.\<close>

definition keys :: "js \<Rightarrow> string list" where
  "keys v = map fst (entries v)"

text \<open>
  \<^verbatim>\<open>s.toLowerCase()\<close> on the ASCII letters. The strings the source compares the result
  with are lower-case ASCII, and the one character outside ASCII that JavaScript
  lower-cases to an ASCII letter is the Kelvin sign, to \<^verbatim>\<open>k\<close>. The type names and
  \<^verbatim>\<open>r1\<close> have no \<^verbatim>\<open>k\<close>, so these comparisons come out as in JavaScript; the
  comparison with \<^verbatim>\<open>think-tags\<close> only chooses between two modes that are not r1.
\<close>

definition lower_char :: "char \<Rightarrow> char" where
  "lower_char c =
     (let n = (of_char c :: nat) in if 65 \<le> n \<and> n \<le> 90 then char_of (n + 32) else c)"

definition toLowerCase :: "string \<Rightarrow> string" where
  "toLowerCase s = map lower_char s"

section \<open>Schema converter\<close>

text \<open>\<^verbatim>\<open>type.find((t) => t !== "null")\<close>, \<^verbatim>\<open>undefined\<close> when there is none.\<close>

definition find_nonNull :: "js list \<Rightarrow> js" where
  "find_nonNull ts = (case List.find (\<lambda>t. t \<noteq> Str ''null'') ts of None \<Rightarrow> Undef | Some t \<Rightarrow> t)"

lemma size_member: "x \<in> set xs \<Longrightarrow> size x < Suc (size_list size xs)"
  by (induction xs) auto

lemma size_value:
  "(k, v) \<in> set kvs \<Longrightarrow> size v < Suc (size_list (size_prod (\<lambda>_. 0) size) kvs)"
  by (induction kvs) auto

lemma size_find_nonNull: "size (find_nonNull ts) < Suc (size_list size ts)"
proof (cases "List.find (\<lambda>t. t \<noteq> Str ''null'') ts")
  case None
  then show ?thesis by (simp add: find_nonNull_def)
next
  case (Some t)
  then have "t \<in> set ts" by (auto simp: find_Some_iff)
  then have "size t < Suc (size_list size ts)" by (rule size_member)
  with Some show ?thesis by (simp add: find_nonNull_def)
qed

function toGeminiType :: "js \<Rightarrow> js" where
  "toGeminiType (Arr ts) = toGeminiType (find_nonNull ts)"
| "toGeminiType (Str s) =
     (let l = toLowerCase s in
      if l = ''object'' then Str ''OBJECT''
      else if l = ''string'' then Str ''STRING''
      else if l = ''number'' then Str ''NUMBER''
      else if l = ''integer'' then Str ''INTEGER''
      else if l = ''boolean'' then Str ''BOOLEAN''
      else if l = ''array'' then Str ''ARRAY''
      else Undef)"
| "toGeminiType Undef = Undef"
| "toGeminiType Null = Undef"
| "toGeminiType (Bool b) = Undef"
| "toGeminiType (Num n) = Undef"
| "toGeminiType (Obj kvs) = Undef"
  by pat_completeness auto
termination
  by (relation "measure size") (simp_all add: size_find_nonNull)

text \<open>
  \<^verbatim>\<open>normalizeProperties\<close>: the body of its loop over the items of an array, then the
  function.
\<close>

definition normalizeItem :: "js \<Rightarrow> js \<Rightarrow> js" where
  "normalizeItem obj item =
     (if isArray item \<and> 2 \<le> length (elements item) \<and> typeof (js_index 0 item) = ''string''
      then js_set (str_of (js_index 0 item)) (js_index 1 item) obj
      else if truthy item \<and> typeof item = ''object'' \<and> js_in ''key'' item \<and> js_in ''value'' item
      then (let k = js_get ''key'' item in
            if typeof k = ''string'' then js_set (str_of k) (js_get ''value'' item) obj else obj)
      else if truthy item \<and> typeof item = ''object'' \<and> js_in ''name'' item \<and> js_in ''schema'' item
      then (let k = js_get ''name'' item in
            if typeof k = ''string'' then js_set (str_of k) (js_get ''schema'' item) obj else obj)
      else obj)"

definition normalizeProperties :: "js \<Rightarrow> js" where
  "normalizeProperties input =
     (if \<not> truthy input then Undef
      else if isArray input then foldl normalizeItem (Obj []) (elements input)
      else if typeof input = ''object'' then input
      else Undef)"

definition allowList :: "string list" where
  "allowList =
     [''type'', ''description'', ''properties'', ''items'', ''required'', ''enum'', ''format'',
      ''nullable'']"

definition startsWith :: "string \<Rightarrow> string \<Rightarrow> bool" where
  "startsWith s p = prefix p s"

definition stripUnsupportedKeys :: "js \<Rightarrow> js" where
  "stripUnsupportedKeys schema =
     foldl (\<lambda>out kv.
              if startsWith (fst kv) ''$'' then out
              else if fst kv \<notin> set allowList then out
              else js_set (fst kv) (snd kv) out)
       (Obj []) (entries schema)"

text \<open>Termination of the converter: every sub-schema it descends into is smaller.\<close>

lemma set_assign: "set (assign k v kvs) \<subseteq> insert (k, v) (set kvs)"
  by (induction kvs) (auto split: if_splits)

lemma js_set_values:
  assumes "\<forall>p \<in> set (entries obj). size (snd p) < n" and "size v < n"
  shows "\<forall>p \<in> set (entries (js_set k v obj)). size (snd p) < n"
proof (cases obj)
  case (Obj kvs)
  show ?thesis
  proof (cases "k = ''__proto__''")
    case True
    with Obj assms show ?thesis by simp
  next
    case False
    have "set (assign k v kvs) \<subseteq> insert (k, v) (set kvs)" by (rule set_assign)
    with Obj False assms show ?thesis by auto
  qed
qed (use assms in simp_all)

lemma size_js_get: "size (js_get k v) \<le> size v"
proof (cases v)
  case (Obj kvs)
  show ?thesis
  proof (cases "map_of kvs k")
    case None
    with Obj show ?thesis by simp
  next
    case (Some w)
    then have "(k, w) \<in> set kvs" by (rule map_of_SomeD)
    then have "size w < Suc (size_list (size_prod (\<lambda>_. 0) size) kvs)" by (rule size_value)
    with Obj Some show ?thesis by simp
  qed
qed simp_all

lemma size_js_get_object:
  assumes "truthy v" and "typeof v = ''object''"
  shows "size (js_get k v) < size v"
proof (cases v)
  case (Obj kvs)
  show ?thesis
  proof (cases "map_of kvs k")
    case None
    with Obj show ?thesis by simp
  next
    case (Some w)
    then have "(k, w) \<in> set kvs" by (rule map_of_SomeD)
    then have "size w < Suc (size_list (size_prod (\<lambda>_. 0) size) kvs)" by (rule size_value)
    with Obj Some show ?thesis by simp
  qed
qed (use assms in simp_all)

lemma size_js_index: "size (js_index i a) \<le> size a"
proof (cases a)
  case (Arr xs)
  show ?thesis
  proof (cases "i < length xs")
    case True
    then have "xs ! i \<in> set xs" by simp
    then have "size (xs ! i) < Suc (size_list size xs)" by (rule size_member)
    with Arr True show ?thesis by (simp add: js_index_def)
  next
    case False
    with Arr show ?thesis by (simp add: js_index_def)
  qed
qed (simp_all add: js_index_def)

lemma normalizeItem_values:
  assumes "\<forall>p \<in> set (entries obj). size (snd p) < n" and "size item < n"
  shows "\<forall>p \<in> set (entries (normalizeItem obj item)). size (snd p) < n"
proof -
  have a: "size (js_index 1 item) < n"
    using size_js_index [of 1 item] assms(2) by simp
  have b: "size (js_get ''value'' item) < n"
    using size_js_get [of "''value''" item] assms(2) by simp
  have c: "size (js_get ''schema'' item) < n"
    using size_js_get [of "''schema''" item] assms(2) by simp
  show ?thesis
    unfolding normalizeItem_def Let_def
    using js_set_values [OF assms(1) a] js_set_values [OF assms(1) b]
      js_set_values [OF assms(1) c] assms(1)
    by presburger
qed

lemma foldl_normalizeItem_values:
  assumes "\<forall>p \<in> set (entries obj). size (snd p) < n" and "\<forall>x \<in> set xs. size x < n"
  shows "\<forall>p \<in> set (entries (foldl normalizeItem obj xs)). size (snd p) < n"
  using assms
proof (induction xs arbitrary: obj)
  case Nil
  then show ?case by simp
next
  case (Cons x xs)
  have "\<forall>p \<in> set (entries (normalizeItem obj x)). size (snd p) < n"
    using Cons.prems by (intro normalizeItem_values) simp_all
  then show ?case using Cons.IH Cons.prems by simp
qed

lemma size_normalizeProperties:
  assumes "p \<in> set (entries (normalizeProperties input))"
  shows "size (snd p) < size input"
proof (cases input)
  case (Arr xs)
  have "\<forall>x \<in> set xs. size x < size input"
    using Arr size_member by auto
  then have "\<forall>p \<in> set (entries (foldl normalizeItem (Obj []) xs)). size (snd p) < size input"
    by (intro foldl_normalizeItem_values) simp_all
  with Arr assms show ?thesis by (simp add: normalizeProperties_def)
next
  case (Obj kvs)
  with assms have "(fst p, snd p) \<in> set kvs" by (simp add: normalizeProperties_def)
  then have "size (snd p) < Suc (size_list (size_prod (\<lambda>_. 0) size) kvs)" by (rule size_value)
  with Obj show ?thesis by simp
qed (use assms in \<open>auto simp: normalizeProperties_def split: if_splits\<close>)

function convertJSONSchemaToGeminiSchema :: "js \<Rightarrow> js" where
  "convertJSONSchemaToGeminiSchema input =
     (if \<not> truthy input \<or> typeof input \<noteq> ''object'' then Undef
      else
        let initial = stripUnsupportedKeys input;
            initial =
              (if js_get ''type'' initial \<noteq> Undef then
                 (let mappedType = toGeminiType (js_get ''type'' initial) in
                  if truthy mappedType then js_set ''type'' mappedType initial
                  else js_delete ''type'' initial)
               else initial);
            initial =
              (if isArray (js_get ''type'' input)
                  \<and> Str ''null'' \<in> set (elements (js_get ''type'' input))
               then js_set ''nullable'' (Bool True) initial
               else initial);
            initial =
              (if js_get ''properties'' input \<noteq> Undef then
                 (let props = normalizeProperties (js_get ''properties'' input) in
                  if truthy props then
                    (let convertedProps =
                           foldl (\<lambda>acc nc. if truthy (snd nc) then js_set (fst nc) (snd nc) acc else acc)
                             (Obj [])
                             (map (\<lambda>p. (fst p, convertJSONSchemaToGeminiSchema (snd p)))
                                (entries props))
                     in if 0 < length (keys convertedProps)
                        then js_set ''properties'' convertedProps initial
                        else initial)
                  else initial)
               else initial);
            initial =
              (if js_get ''items'' input \<noteq> Undef then
                 (if isArray (js_get ''items'' input) then
                    (let first = js_index 0 (js_get ''items'' input);
                         conv = convertJSONSchemaToGeminiSchema first
                     in if truthy conv then js_set ''items'' conv initial else initial)
                  else
                    (let conv = convertJSONSchemaToGeminiSchema (js_get ''items'' input)
                     in if truthy conv then js_set ''items'' conv initial else initial))
               else initial);
            initial =
              (if isArray (js_get ''required'' input)
               then js_set ''required''
                      (Arr (filter (\<lambda>r. typeof r = ''string'') (elements (js_get ''required'' input))))
                      initial
               else initial);
            initial =
              (if isArray (js_get ''enum'' input)
               then js_set ''enum'' (js_get ''enum'' input) initial
               else initial);
            initial =
              (if typeof (js_get ''description'' input) = ''string''
               then js_set ''description'' (js_get ''description'' input) initial
               else initial);
            initial =
              (if typeof (js_get ''format'' input) = ''string''
               then js_set ''format'' (js_get ''format'' input) initial
               else initial)
        in initial)"
  by pat_completeness auto
termination
proof (relation "measure size")
  show "wf (measure size)" by simp
next
  fix input :: js and p x xa xb xc
  assume "\<not> (\<not> truthy input \<or> typeof input \<noteq> ''object'')"
    and "p \<in> set (entries xc)" and "xc = normalizeProperties (js_get ''properties'' input)"
  then show "(snd p, input) \<in> measure size"
    using size_normalizeProperties [of p "js_get ''properties'' input"]
      size_js_get [of "''properties''" input]
    by simp
next
  fix input :: js and first
  assume "\<not> (\<not> truthy input \<or> typeof input \<noteq> ''object'')"
    and "first = js_index 0 (js_get ''items'' input)"
  then show "(first, input) \<in> measure size"
    using size_js_index [of 0 "js_get ''items'' input"]
      size_js_get_object [of input "''items''"]
    by simp
next
  fix input :: js
  assume "\<not> (\<not> truthy input \<or> typeof input \<noteq> ''object'')"
  then show "(js_get ''items'' input, input) \<in> measure size"
    using size_js_get_object [of input "''items''"] by simp
qed

declare convertJSONSchemaToGeminiSchema.simps [simp del]

section \<open>Generation config builder\<close>

text \<open>
  The request options (\<^verbatim>\<open>Partial<ChatCompletionRequest>\<close>): every field may be
  \<^verbatim>\<open>undefined\<close>. \<^verbatim>\<open>thinking_budget\<close> is a number or absent; the other fields
  are read as untyped values. \<open>request_tools\<close> is the field \<^verbatim>\<open>tools\<close> of the request.
\<close>

record ChatCompletionRequest =
  temperature :: js
  max_tokens :: js
  top_p :: js
  stop :: js
  presence_penalty :: js
  frequency_penalty :: js
  seed :: js
  response_format :: js
  thinking_budget :: "real option"
  reasoning_effort :: js
  extra_body :: js
  model_params :: js
  request_tools :: js
  tool_choice :: js

text \<open>
  The model table \<^verbatim>\<open>geminiCliModels\<close> and the constants \<^verbatim>\<open>DEFAULT_TEMPERATURE\<close> and
  \<^verbatim>\<open>REASONING_EFFORT_BUDGETS\<close> are declared outside the files at hand: they are
  parameters of the functions that read them.
\<close>

record ModelInfo =
  thinking :: bool

type_synonym ModelTable = "string \<Rightarrow> ModelInfo option"

record EffortBudgets =
  budget_none :: real
  budget_low :: real
  budget_medium_flash :: real
  budget_medium_default :: real
  budget_high_flash :: real
  budget_high_default :: real

record Constants =
  DEFAULT_TEMPERATURE :: js
  REASONING_EFFORT_BUDGETS :: EffortBudgets

text \<open>
  Modelled from the spec: the constant \<^verbatim>\<open>DEFAULT_THINKING_BUDGET\<close> of the constants
  module, which is not among the files at hand. The spec's glossary gives \<open>-1\<close> as the
  value for dynamic allocation, and so does the source's comment at each use.
\<close>

definition DEFAULT_THINKING_BUDGET :: real where
  "DEFAULT_THINKING_BUDGET = - 1"

text \<open>\<^verbatim>\<open>modelInfo?.thinking\<close> for \<^verbatim>\<open>modelInfo = geminiCliModels[modelId]\<close>.\<close>

definition isThinkingModel :: "ModelTable \<Rightarrow> string \<Rightarrow> bool" where
  "isThinkingModel models modelId =
     (case models modelId of None \<Rightarrow> False | Some modelInfo \<Rightarrow> thinking modelInfo)"

text \<open>\<^verbatim>\<open>s.includes(t)\<close> on strings.\<close>

definition includes_str :: "string \<Rightarrow> string \<Rightarrow> bool" where
  "includes_str s t = sublist t s"

definition mapEffortToThinkingBudget :: "EffortBudgets \<Rightarrow> string \<Rightarrow> string \<Rightarrow> real" where
  "mapEffortToThinkingBudget budgets effort modelId =
     (let isFlashModel = includes_str modelId ''flash'' in
      if effort = ''none'' then budget_none budgets
      else if effort = ''low'' then budget_low budgets
      else if effort = ''medium''
      then (if isFlashModel then budget_medium_flash budgets else budget_medium_default budgets)
      else if effort = ''high''
      then (if isFlashModel then budget_high_flash budgets else budget_high_default budgets)
      else DEFAULT_THINKING_BUDGET)"

definition isValidEffortLevel :: "js \<Rightarrow> bool" where
  "isValidEffortLevel v =
     (typeof v = ''string'' \<and> str_of v \<in> set [''none'', ''low'', ''medium'', ''high''])"

text \<open>The two corrections are logged in the source; the log is not modelled.\<close>

definition validateThinkingBudget :: "ModelTable \<Rightarrow> string \<Rightarrow> real \<Rightarrow> real" where
  "validateThinkingBudget models modelId thinkingBudget =
     (if isThinkingModel models modelId then
        (if thinkingBudget = 0 then DEFAULT_THINKING_BUDGET
         else if thinkingBudget < - 1 then DEFAULT_THINKING_BUDGET
         else thinkingBudget)
      else thinkingBudget)"

text \<open>\<^verbatim>\<open>o?.k\<close> and \<^verbatim>\<open>a || b\<close>.\<close>

definition js_get_opt :: "string \<Rightarrow> js \<Rightarrow> js" where
  "js_get_opt k v = (if nullish v then Undef else js_get k v)"

definition js_or :: "js \<Rightarrow> js \<Rightarrow> js" where
  "js_or a b = (if truthy a then a else b)"

text \<open>
  The effort hint of \<^verbatim>\<open>createValidatedConfig\<close>:
  \<^verbatim>\<open>options.reasoning_effort || options.extra_body?.reasoning_effort || options.model_params?.reasoning_effort\<close>.
\<close>

definition reasoning_effort_hint :: "ChatCompletionRequest \<Rightarrow> js" where
  "reasoning_effort_hint options =
     js_or (js_or (reasoning_effort options) (js_get_opt ''reasoning_effort'' (extra_body options)))
       (js_get_opt ''reasoning_effort'' (model_params options))"

text \<open>
  The first half of the thinking branch of \<^verbatim>\<open>createValidatedConfig\<close>: the values of
  its variables \<^verbatim>\<open>thinkingBudget\<close> and \<^verbatim>\<open>includeReasoning\<close> once the effort hint has
  been applied.
\<close>

definition thinkingSelection ::
  "EffortBudgets \<Rightarrow> string \<Rightarrow> ChatCompletionRequest \<Rightarrow> bool \<Rightarrow> real \<times> bool" where
  "thinkingSelection budgets modelId options includeReasoning =
     (let thinkingBudget =
            (case thinking_budget options of None \<Rightarrow> DEFAULT_THINKING_BUDGET | Some b \<Rightarrow> b);
          hint = reasoning_effort_hint options
      in if truthy hint \<and> isValidEffortLevel hint
         then (mapEffortToThinkingBudget budgets (str_of hint) modelId,
               if hint = Str ''none'' then False else True)
         else (thinkingBudget, includeReasoning))"

text \<open>
  \<^verbatim>\<open>createValidatedConfig\<close>, in two parts: the sampling fields and the JSON flag it
  starts with (\<open>samplingConfig\<close>), then the thinking branch and the removal of the
  \<^verbatim>\<open>undefined\<close> fields.
\<close>

definition samplingConfig :: "Constants \<Rightarrow> ChatCompletionRequest \<Rightarrow> js" where
  "samplingConfig constants options =
     (let generationConfig =
            Obj [(''temperature'',
                   if nullish (temperature options) then DEFAULT_TEMPERATURE constants
                   else temperature options),
                 (''maxOutputTokens'', max_tokens options),
                 (''topP'', top_p options),
                 (''stopSequences'',
                   if typeof (stop options) = ''string'' then Arr [stop options] else stop options),
                 (''presencePenalty'', presence_penalty options),
                 (''frequencyPenalty'', frequency_penalty options),
                 (''seed'', seed options)]
      in if js_get_opt ''type'' (response_format options) = Str ''json_object''
         then js_set ''responseMimeType'' (Str ''application/json'') generationConfig
         else generationConfig)"

definition createValidatedConfig ::
  "ModelTable \<Rightarrow> Constants \<Rightarrow> string \<Rightarrow> ChatCompletionRequest \<Rightarrow> bool \<Rightarrow> bool \<Rightarrow> js" where
  "createValidatedConfig models constants modelId options isRealThinkingEnabled includeReasoning =
     (let generationConfig = samplingConfig constants options;
          generationConfig =
            (if isThinkingModel models modelId then
               (let (thinkingBudget, includeReasoning) =
                      thinkingSelection (REASONING_EFFORT_BUDGETS constants) modelId options
                        includeReasoning;
                    validatedBudget = validateThinkingBudget models modelId thinkingBudget
                in if isRealThinkingEnabled \<and> includeReasoning
                   then js_set ''thinkingConfig''
                          (Obj [(''thinkingBudget'', Num validatedBudget),
                                (''includeThoughts'', Bool True)])
                          generationConfig
                   else js_set ''thinkingConfig''
                          (Obj [(''thinkingBudget'',
                                  Num (validateThinkingBudget models modelId
                                         DEFAULT_THINKING_BUDGET)),
                                (''includeThoughts'', Bool False)])
                          generationConfig)
             else generationConfig)
      in Obj (filter (\<lambda>kv. snd kv \<noteq> Undef) (entries generationConfig)))"

section \<open>Tool resolution\<close>

text \<open>Reading a property of \<^verbatim>\<open>undefined\<close> or \<^verbatim>\<open>null\<close> throws a \<^verbatim>\<open>TypeError\<close>.\<close>

datatype error = TypeError

record NativeToolsConfiguration =
  useCustomTools :: bool
  useNativeTools :: bool
  customTools :: "js list option"
  nativeTools :: "js list option"

record ToolConfiguration =
  tools :: js
  toolConfig :: js

text \<open>\<^verbatim>\<open>xs.map(f)\<close> for an \<open>f\<close> that may throw: the first throw ends the loop.\<close>

fun map_throwing :: "('a \<Rightarrow> error + 'b) \<Rightarrow> 'a list \<Rightarrow> error + 'b list" where
  "map_throwing f [] = Inr []"
| "map_throwing f (x # xs) =
     (case f x of
        Inl e \<Rightarrow> Inl e
      | Inr y \<Rightarrow> (case map_throwing f xs of Inl e \<Rightarrow> Inl e | Inr ys \<Rightarrow> Inr (y # ys)))"

text \<open>
  The callback both \<^verbatim>\<open>createValidateTools\<close> and \<^verbatim>\<open>createFinalToolConfiguration\<close>
  map over their tool list: the function declaration of one client tool. It reads
  \<^verbatim>\<open>tool.function.parameters\<close>, \<^verbatim>\<open>.name\<close> and \<^verbatim>\<open>.description\<close>, which throws
  when \<^verbatim>\<open>tool\<close> or \<^verbatim>\<open>tool.function\<close> is \<^verbatim>\<open>undefined\<close> or \<^verbatim>\<open>null\<close>.
\<close>

definition functionDeclaration :: "js \<Rightarrow> error + js" where
  "functionDeclaration tool =
     (if nullish tool \<or> nullish (js_get ''function'' tool) then Inl TypeError
      else
        let func = js_get ''function'' tool;
            converted =
              convertJSONSchemaToGeminiSchema (js_or (js_get ''parameters'' func) (Obj []))
        in Inr (Obj [(''name'', js_get ''name'' func),
                     (''description'', js_get ''description'' func),
                     (''parameters'', converted)]))"

definition createValidateTools :: "ChatCompletionRequest \<Rightarrow> error + ToolConfiguration" where
  "createValidateTools options =
     (if isArray (request_tools options) \<and> 0 < length (elements (request_tools options)) then
        (case map_throwing functionDeclaration (elements (request_tools options)) of
           Inl e \<Rightarrow> Inl e
         | Inr functionDeclarations \<Rightarrow>
             Inr \<lparr>tools = Arr [Obj [(''functionDeclarations'', Arr functionDeclarations)]],
                  toolConfig =
                    (if truthy (tool_choice options) then
                       (if tool_choice options = Str ''auto''
                        then Obj [(''functionCallingConfig'', Obj [(''mode'', Str ''AUTO'')])]
                        else if tool_choice options = Str ''none''
                        then Obj [(''functionCallingConfig'', Obj [(''mode'', Str ''NONE'')])]
                        else if typeof (tool_choice options) = ''object''
                                \<and> truthy (js_get ''function'' (tool_choice options))
                        then Obj [(''functionCallingConfig'',
                                   Obj [(''mode'', Str ''ANY''),
                                        (''allowedFunctionNames'',
                                         Arr [js_get ''name''
                                                (js_get ''function'' (tool_choice options))])])]
                        else Obj [])
                     else Obj [])\<rparr>)
      else Inr \<lparr>tools = Arr [], toolConfig = Obj []\<rparr>)"

definition nativeTool :: "js \<Rightarrow> error + js" where
  "nativeTool tool =
     (if nullish tool then Inl TypeError
      else if truthy (js_get ''google_search'' tool)
      then Inr (Obj [(''google_search'', js_get ''google_search'' tool)])
      else if truthy (js_get ''url_context'' tool)
      then Inr (Obj [(''url_context'', js_get ''url_context'' tool)])
      else Inr tool)"

definition nonempty :: "js list option \<Rightarrow> bool" where
  "nonempty xs = (case xs of None \<Rightarrow> False | Some ys \<Rightarrow> 0 < length ys)"

definition createFinalToolConfiguration ::
  "NativeToolsConfiguration \<Rightarrow> ChatCompletionRequest \<Rightarrow> error + ToolConfiguration" where
  "createFinalToolConfiguration config options =
     (if useCustomTools config \<and> nonempty (customTools config) then
        (case createValidateTools options of
           Inl e \<Rightarrow> Inl e
         | Inr validated \<Rightarrow>
             (case map_throwing functionDeclaration (the (customTools config)) of
                Inl e \<Rightarrow> Inl e
              | Inr functionDeclarations \<Rightarrow>
                  Inr \<lparr>tools = Arr [Obj [(''functionDeclarations'', Arr functionDeclarations)]],
                       toolConfig = toolConfig validated\<rparr>))
      else if useNativeTools config \<and> nonempty (nativeTools config) then
        (case map_throwing nativeTool (the (nativeTools config)) of
           Inl e \<Rightarrow> Inl e
         | Inr ts \<Rightarrow> Inr \<lparr>tools = Arr ts, toolConfig = Undef\<rparr>)
      else Inr \<lparr>tools = Undef, toolConfig = Undef\<rparr>)"

section \<open>Streaming transform\<close>

text \<open>
  A chunk of the backend stream: its tag and its untyped payload. The platform functions
  the transformer calls are parameters: the \<open>n\<close>-th result of
  \<^verbatim>\<open>crypto.randomUUID()\<close> within one stream, \<^verbatim>\<open>Date.now()\<close> at its creation, and
  \<^verbatim>\<open>JSON.stringify\<close>; so is the constant \<^verbatim>\<open>OPENAI_CHAT_COMPLETION_OBJECT\<close> of the
  configuration module.
\<close>

record StreamChunk =
  type :: string
  data :: js

record Platform =
  randomUUID :: "nat \<Rightarrow> string"
  Date_now :: int
  JSON_stringify :: "js \<Rightarrow> js"
  OPENAI_CHAT_COMPLETION_OBJECT :: string

text \<open>The constants of one transformer, fixed when it is created.\<close>

record Transformer =
  chatID :: string
  creationTime :: int
  model :: string
  isR1 :: bool

text \<open>
  The variables of one transformer that its \<^verbatim>\<open>transform\<close> assigns. \<open>uuidCalls\<close>
  counts the calls of \<^verbatim>\<open>crypto.randomUUID()\<close> made so far.
\<close>

record StreamState =
  firstChunk :: bool
  toolCallId :: "string option"
  toolCallName :: js
  usageData :: js
  uuidCalls :: nat

text \<open>
  What the transformer enqueues: \<open>Data x\<close> is the encoding of
  \<^verbatim>\<open>data: ${JSON.stringify(x)}\<close> and \<open>Done\<close> that of \<^verbatim>\<open>data: [DONE]\<close>, each followed
  by two line feeds.
\<close>

datatype frame = Data js | Done

definition isReasoningData :: "js \<Rightarrow> bool" where
  "isReasoningData d =
     (typeof d = ''object'' \<and> d \<noteq> Null \<and> (js_in ''reasoning'' d \<or> js_in ''toolCode'' d))"

definition isReasoningEndData :: "js \<Rightarrow> bool" where
  "isReasoningEndData d = (typeof d = ''object'' \<and> d \<noteq> Null \<and> js_in ''finished'' d)"

definition isGeminiFunctionCall :: "js \<Rightarrow> bool" where
  "isGeminiFunctionCall d =
     (typeof d = ''object'' \<and> d \<noteq> Null \<and> js_in ''name'' d \<and> js_in ''args'' d)"

definition isUsageData :: "js \<Rightarrow> bool" where
  "isUsageData d =
     (typeof d = ''object'' \<and> d \<noteq> Null \<and> js_in ''inputTokens'' d \<and> js_in ''outputTokens'' d)"

definition isNativeToolResponse :: "js \<Rightarrow> bool" where
  "isNativeToolResponse d =
     (typeof d = ''object'' \<and> d \<noteq> Null \<and> js_in ''type'' d \<and> js_in ''data'' d)"

text \<open>
  \<^verbatim>\<open>createOpenAIStreamTransformer\<close>: the constants and the initial variables of a new
  transformer. An omitted \<^verbatim>\<open>outputMode\<close> is \<open>None\<close>.
\<close>

definition createOpenAIStreamTransformer ::
  "Platform \<Rightarrow> string \<Rightarrow> string option \<Rightarrow> Transformer \<times> StreamState" where
  "createOpenAIStreamTransformer platform model_name outputMode =
     (let chatID = ''chatcmpl-'' @ randomUUID platform 0;
          creationTime = Date_now platform div 1000;
          outputMode = (case outputMode of None \<Rightarrow> ''tagged'' | Some m \<Rightarrow> m);
          rawMode = toLowerCase (if outputMode = [] then ''tagged'' else outputMode);
          mode = (if rawMode = ''think-tags'' then ''tagged'' else rawMode)
      in (\<lparr>chatID = chatID, creationTime = creationTime, model = model_name,
           isR1 = (mode = ''r1'')\<rparr>,
          \<lparr>firstChunk = True, toolCallId = None, toolCallName = Null, usageData = Undef,
           uuidCalls = 1\<rparr>))"

text \<open>
  The \<^verbatim>\<open>switch\<close> of \<^verbatim>\<open>transform\<close>: the variables after it and the delta it has
  built, or \<open>None\<close> where it returns from \<^verbatim>\<open>transform\<close> (the usage case).
\<close>

definition switch_chunk ::
  "Platform \<Rightarrow> Transformer \<Rightarrow> StreamState \<Rightarrow> StreamChunk \<Rightarrow> StreamState \<times> js option" where
  "switch_chunk platform tr st chunk =
     (if type chunk = ''text'' \<or> type chunk = ''thinking_content'' then
        (if typeof (data chunk) = ''string'' then
           (let delta = js_set ''content'' (data chunk) (Obj []) in
            if firstChunk st
            then (st\<lparr>firstChunk := False\<rparr>, Some (js_set ''role'' (Str ''assistant'') delta))
            else (st, Some delta))
         else (st, Some (Obj [])))
      else if type chunk = ''real_thinking'' then
        (if typeof (data chunk) = ''string'' then
           (if isR1 tr then (st, Some (js_set ''reasoning_content'' (data chunk) (Obj [])))
            else (st, Some (js_set ''reasoning'' (data chunk) (Obj []))))
         else (st, Some (Obj [])))
      else if type chunk = ''reasoning'' then
        (if isReasoningData (data chunk) then
           (if isR1 tr
            then (st, Some (js_set ''reasoning_content'' (js_get ''reasoning'' (data chunk)) (Obj [])))
            else (st, Some (js_set ''reasoning'' (js_get ''reasoning'' (data chunk)) (Obj []))))
         else (st, Some (Obj [])))
      else if type chunk = ''reasoning_end'' then
        (if \<not> isR1 tr \<and> isReasoningEndData (data chunk)
         then (st, Some (js_set ''reasoning_finished'' (js_get ''finished'' (data chunk)) (Obj [])))
         else (st, Some (Obj [])))
      else if type chunk = ''tool_code'' then
        (if isGeminiFunctionCall (data chunk) then
           (let toolData = data chunk;
                name = js_get ''name'' toolData;
                callId = ''call_'' @ randomUUID platform (uuidCalls st);
                st = st\<lparr>toolCallName := name, toolCallId := Some callId,
                          uuidCalls := Suc (uuidCalls st)\<rparr>;
                delta =
                  js_set ''tool_calls''
                    (Arr [Obj [(''index'', Num 0),
                               (''id'', Str callId),
                               (''type'', Str ''function''),
                               (''function'',
                                Obj [(''name'', name),
                                     (''arguments'',
                                      JSON_stringify platform (js_get ''args'' toolData))])]])
                    (Obj [])
            in if firstChunk st
               then (st\<lparr>firstChunk := False\<rparr>,
                     Some (js_set ''content'' Null (js_set ''role'' (Str ''assistant'') delta)))
               else (st, Some delta))
         else (st, Some (Obj [])))
      else if type chunk = ''native_tool'' then
        (if isNativeToolResponse (data chunk)
         then (st, Some (js_set ''native_tool_calls'' (Arr [data chunk]) (Obj [])))
         else (st, Some (Obj [])))
      else if type chunk = ''grounding_metadata'' then
        (if truthy (data chunk)
         then (st, Some (js_set ''grounding'' (data chunk) (Obj [])))
         else (st, Some (Obj [])))
      else if type chunk = ''usage'' then
        (if isUsageData (data chunk) then (st\<lparr>usageData := data chunk\<rparr>, None)
         else (st, None))
      else (st, Some (Obj [])))"

text \<open>The object \<^verbatim>\<open>openAIChunk\<close> that \<^verbatim>\<open>transform\<close> builds around a delta.\<close>

definition openAIChunk :: "Platform \<Rightarrow> Transformer \<Rightarrow> js \<Rightarrow> js" where
  "openAIChunk platform tr delta =
     Obj [(''id'', Str (chatID tr)),
          (''object'', Str (OPENAI_CHAT_COMPLETION_OBJECT platform)),
          (''created'', Num (real_of_int (creationTime tr))),
          (''model'', Str (model tr)),
          (''choices'',
           Arr [Obj [(''index'', Num 0),
                     (''delta'', delta),
                     (''finish_reason'', Null),
                     (''logprobs'', Null),
                     (''matched_stop'', Null)]]),
          (''usage'', Null)]"

text \<open>\<^verbatim>\<open>transform(chunk, controller)\<close>: the variables after it and the frames it enqueues.\<close>

definition transform ::
  "Platform \<Rightarrow> Transformer \<Rightarrow> StreamState \<Rightarrow> StreamChunk \<Rightarrow> StreamState \<times> frame list" where
  "transform platform tr st chunk =
     (case switch_chunk platform tr st chunk of
        (st', None) \<Rightarrow> (st', [])
      | (st', Some delta) \<Rightarrow>
          (if 0 < length (keys delta) then (st', [Data (openAIChunk platform tr delta)])
           else (st', [])))"

text \<open>\<^verbatim>\<open>a + b\<close> on numbers and on strings; no other operands are modelled.\<close>

fun js_plus :: "js \<Rightarrow> js \<Rightarrow> js" where
  "js_plus (Num a) (Num b) = Num (a + b)"
| "js_plus (Str a) (Str b) = Str (a @ b)"
| "js_plus a b = Undef"

text \<open>\<^verbatim>\<open>flush(controller)\<close>: the frames it enqueues.\<close>

definition flush :: "Platform \<Rightarrow> Transformer \<Rightarrow> StreamState \<Rightarrow> frame list" where
  "flush platform tr st =
     (let finishReason =
            (if (case toolCallId st of None \<Rightarrow> False | Some i \<Rightarrow> i \<noteq> [])
             then ''tool_calls'' else ''stop'');
          finalChunk =
            Obj [(''id'', Str (chatID tr)),
                 (''object'', Str (OPENAI_CHAT_COMPLETION_OBJECT platform)),
                 (''created'', Num (real_of_int (creationTime tr))),
                 (''model'', Str (model tr)),
                 (''choices'',
                  Arr [Obj [(''index'', Num 0),
                            (''delta'', Obj []),
                            (''finish_reason'', Str finishReason)]])];
          finalChunk =
            (if truthy (usageData st)
             then js_set ''usage''
                    (Obj [(''prompt_tokens'', js_get ''inputTokens'' (usageData st)),
                          (''completion_tokens'', js_get ''outputTokens'' (usageData st)),
                          (''total_tokens'',
                           js_plus (js_get ''inputTokens'' (usageData st))
                             (js_get ''outputTokens'' (usageData st)))])
                    finalChunk
             else finalChunk);
          payload = finalChunk;
          payload =
            (if isR1 tr
             then js_set ''completion_tokens_details'' (Obj [(''reasoning_tokens'', Num 0)]) payload
             else payload)
      in [Data payload, Done])"

text \<open>
  A stream: the chunks are transformed in arrival order, then the stream is flushed.
  \<open>run_chunks\<close> gives the variables after the chunks and the frames of each chunk.
\<close>

fun run_chunks ::
  "Platform \<Rightarrow> Transformer \<Rightarrow> StreamState \<Rightarrow> StreamChunk list \<Rightarrow> StreamState \<times> frame list list" where
  "run_chunks platform tr st [] = (st, [])"
| "run_chunks platform tr st (chunk # chunks) =
     (let (st', frames) = transform platform tr st chunk;
          (st'', rest) = run_chunks platform tr st' chunks
      in (st'', frames # rest))"

definition stream ::
  "Platform \<Rightarrow> string \<Rightarrow> string option \<Rightarrow> StreamChunk list \<Rightarrow> frame list" where
  "stream platform model_name outputMode chunks =
     (let (tr, st) = createOpenAIStreamTransformer platform model_name outputMode;
          (st', frames) = run_chunks platform tr st chunks
      in concat frames @ flush platform tr st')"

section \<open>Observations and auxiliary notions\<close>

text \<open>The body of the loop of \<^verbatim>\<open>stripUnsupportedKeys\<close>.\<close>

definition strip_step :: "js \<Rightarrow> string \<times> js \<Rightarrow> js" where
  "strip_step out kv =
     (if startsWith (fst kv) ''$'' then out
      else if fst kv \<notin> set allowList then out
      else js_set (fst kv) (snd kv) out)"

text \<open>
  The converter up to its nullable step (\<open>typed_copy\<close>); its later steps write only
  the properties, items, required, enum, description and format fields.
\<close>

definition typed_copy :: "js \<Rightarrow> js" where
  "typed_copy input =
     (let initial = stripUnsupportedKeys input;
          initial =
            (if js_get ''type'' initial \<noteq> Undef then
               (let mappedType = toGeminiType (js_get ''type'' initial) in
                if truthy mappedType then js_set ''type'' mappedType initial
                else js_delete ''type'' initial)
             else initial)
      in if isArray (js_get ''type'' input) \<and> Str ''null'' \<in> set (elements (js_get ''type'' input))
         then js_set ''nullable'' (Bool True) initial
         else initial)"

text \<open>
  A later state \<open>b\<close> of the converted schema that has the type and the nullable flag
  of the state \<open>a\<close>.
\<close>

definition agrees :: "js \<Rightarrow> js \<Rightarrow> bool" where
  "agrees a b =
     (distinct_keys b \<and> js_get ''type'' b = js_get ''type'' a \<and> js_in ''type'' b = js_in ''type'' a
      \<and> js_get ''nullable'' b = js_get ''nullable'' a)"

text \<open>Whether the variable \<^verbatim>\<open>toolCallId\<close> is truthy, as \<^verbatim>\<open>flush\<close> tests it.\<close>

definition has_tool_call :: "StreamState \<Rightarrow> bool" where
  "has_tool_call st = (case toolCallId st of None \<Rightarrow> False | Some i \<Rightarrow> i \<noteq> [])"

text \<open>A chunk that assigns a tool-call id: a \<^verbatim>\<open>tool_code\<close> chunk with a function call.\<close>

definition assigns_tool_call :: "StreamChunk \<Rightarrow> bool" where
  "assigns_tool_call chunk = (type chunk = ''tool_code'' \<and> isGeminiFunctionCall (data chunk))"

text \<open>
  The payload of a data frame, the terminal frame of a stream (the frame before the
  end-of-stream sentinel), and the delta and the finish reason of a payload's one choice.
\<close>

fun payload :: "frame \<Rightarrow> js" where
  "payload (Data x) = x"
| "payload Done = Undef"

definition terminal :: "frame list \<Rightarrow> js" where
  "terminal frames = (case rev frames of Done # Data x # _ \<Rightarrow> x | _ \<Rightarrow> Undef)"

definition delta :: "js \<Rightarrow> js" where
  "delta x = js_get ''delta'' (js_index 0 (js_get ''choices'' x))"

definition finish_reason :: "js \<Rightarrow> js" where
  "finish_reason x = js_get ''finish_reason'' (js_index 0 (js_get ''choices'' x))"

text \<open>
  The shape check that \<^verbatim>\<open>transform\<close> makes on the payload of a chunk of each kind it
  has a case for: the condition that guards the case's assignments.
\<close>

definition shape_check :: "StreamChunk \<Rightarrow> bool" where
  "shape_check chunk =
     (if type chunk = ''text'' \<or> type chunk = ''thinking_content'' \<or> type chunk = ''real_thinking''
      then typeof (data chunk) = ''string''
      else if type chunk = ''reasoning'' then isReasoningData (data chunk)
      else if type chunk = ''reasoning_end'' then isReasoningEndData (data chunk)
      else if type chunk = ''tool_code'' then isGeminiFunctionCall (data chunk)
      else if type chunk = ''native_tool'' then isNativeToolResponse (data chunk)
      else if type chunk = ''grounding_metadata'' then truthy (data chunk)
      else if type chunk = ''usage'' then isUsageData (data chunk)
      else False)"

definition recognized :: "string \<Rightarrow> bool" where
  "recognized t =
     (t \<in> set [''text'', ''thinking_content'', ''real_thinking'', ''reasoning'', ''reasoning_end'',
               ''tool_code'', ''native_tool'', ''grounding_metadata'', ''usage''])"

text \<open>
  A chunk that opens the answer: a \<^verbatim>\<open>text\<close> or \<^verbatim>\<open>thinking_content\<close> chunk with a
  string, or a \<^verbatim>\<open>tool_code\<close> chunk with a function call. These are the chunks of the
  three kinds for which \<^verbatim>\<open>transform\<close> emits a delta.
\<close>

definition opens :: "StreamChunk \<Rightarrow> bool" where
  "opens c =
     (((type c = ''text'' \<or> type c = ''thinking_content'') \<and> typeof (data c) = ''string'')
      \<or> (type c = ''tool_code'' \<and> isGeminiFunctionCall (data c)))"

text \<open>The frames enqueued for the chunks of a stream, before it is flushed.\<close>

definition frames_of_chunks ::
  "Platform \<Rightarrow> string \<Rightarrow> string option \<Rightarrow> StreamChunk list \<Rightarrow> frame list" where
  "frames_of_chunks platform model_name outputMode chunks =
     concat (snd (run_chunks platform
        (fst (createOpenAIStreamTransformer platform model_name outputMode))
        (snd (createOpenAIStreamTransformer platform model_name outputMode)) chunks))"

text \<open>
  Redaction of the opaque values of a frame: the stream id and the creation time of the
  payload (\<open>redact_stream_fields\<close>), and with them the id of every tool call of every
  choice's delta (\<open>redact_ids\<close>).
\<close>

definition redact_tool_call :: "js \<Rightarrow> js" where
  "redact_tool_call call = js_set ''id'' (Str []) call"

definition redact_delta :: "js \<Rightarrow> js" where
  "redact_delta d =
     (if isArray (js_get ''tool_calls'' d)
      then js_set ''tool_calls'' (Arr (map redact_tool_call (elements (js_get ''tool_calls'' d)))) d
      else d)"

definition redact_choice :: "js \<Rightarrow> js" where
  "redact_choice choice = js_set ''delta'' (redact_delta (js_get ''delta'' choice)) choice"

definition redact_stream_fields :: "js \<Rightarrow> js" where
  "redact_stream_fields x = js_set ''id'' (Str []) (js_set ''created'' (Num 0) x)"

definition redact_ids :: "js \<Rightarrow> js" where
  "redact_ids x =
     redact_stream_fields
       (js_set ''choices'' (Arr (map redact_choice (elements (js_get ''choices'' x)))) x)"

fun redact_frame :: "(js \<Rightarrow> js) \<Rightarrow> frame \<Rightarrow> frame" where
  "redact_frame r (Data x) = Data (r x)"
| "redact_frame r Done = Done"

text \<open>Two streams in step: their variables agree in what the output depends on.\<close>

definition in_step :: "StreamState \<Rightarrow> StreamState \<Rightarrow> bool" where
  "in_step s t =
     (firstChunk s = firstChunk t \<and> has_tool_call s = has_tool_call t \<and> usageData s = usageData t)"

section \<open>Example inputs\<close>

definition example_models :: ModelTable where
  "example_models =
     (\<lambda>m. if m = ''gemini-2.5-pro'' \<or> m = ''gemini-2.5-flash'' then Some \<lparr>thinking = True\<rparr>
          else if m = ''gemini-2.0-flash'' then Some \<lparr>thinking = False\<rparr>
          else None)"

definition example_constants :: Constants where
  "example_constants =
     \<lparr>DEFAULT_TEMPERATURE = Num (7 / 10),
      REASONING_EFFORT_BUDGETS =
        \<lparr>budget_none = 0, budget_low = 1024, budget_medium_flash = 12288,
         budget_medium_default = 16384, budget_high_flash = 24576,
         budget_high_default = 32768\<rparr>\<rparr>"

definition example_request :: ChatCompletionRequest where
  "example_request =
     \<lparr>temperature = Undef, max_tokens = Num 100, top_p = Undef, stop = Str ''END'',
      presence_penalty = Undef, frequency_penalty = Undef, seed = Undef,
      response_format = Undef, thinking_budget = Some 5, reasoning_effort = Undef,
      extra_body = Obj [(''reasoning_effort'', Str ''high'')],
      model_params = Obj [(''reasoning_effort'', Str ''low'')],
      request_tools = Undef, tool_choice = Undef\<rparr>"

definition example_tool :: js where
  "example_tool =
     Obj [(''type'', Str ''function''),
          (''function'',
           Obj [(''name'', Str ''get_weather''),
                (''description'', Str ''Weather of a city''),
                (''parameters'',
                 Obj [(''type'', Str ''object''),
                      (''properties'', Obj [(''city'', Obj [(''type'', Str ''string'')])]),
                      (''required'', Arr [Str ''city''])])])]"

definition example_tools_request :: ChatCompletionRequest where
  "example_tools_request =
     \<lparr>temperature = Undef, max_tokens = Undef, top_p = Undef, stop = Undef,
      presence_penalty = Undef, frequency_penalty = Undef, seed = Undef,
      response_format = Undef, thinking_budget = None, reasoning_effort = Undef,
      extra_body = Undef, model_params = Undef,
      request_tools = Arr [example_tool], tool_choice = Undef\<rparr>"

definition example_tools_config :: NativeToolsConfiguration where
  "example_tools_config =
     \<lparr>useCustomTools = True, useNativeTools = False, customTools = Some [example_tool],
      nativeTools = None\<rparr>"

definition example_schema :: js where
  "example_schema =
     Obj [(''type'', Arr [Str ''string'', Str ''null'']), (''description'', Str ''a name''),
          (''minLength'', Num 1)]"

definition example_date_schema :: js where
  "example_date_schema = Obj [(''type'', Str ''date''), (''format'', Str ''date-time'')]"

text \<open>
  An example platform. Its \<^verbatim>\<open>JSON.stringify\<close> is right on the empty object, the only
  value the examples print with it.
\<close>

definition example_platform :: Platform where
  "example_platform =
     \<lparr>randomUUID = (\<lambda>n. ''uuid-'' @ decimal n), Date_now = 1700000000123,
      JSON_stringify = (\<lambda>v. Str ''{}''),
      OPENAI_CHAT_COMPLETION_OBJECT = ''chat.completion.chunk''\<rparr>"

definition example_text_chunk :: StreamChunk where
  "example_text_chunk = \<lparr>type = ''text'', data = Str ''Hi''\<rparr>"

definition example_tool_chunk :: StreamChunk where
  "example_tool_chunk =
     \<lparr>type = ''tool_code'', data = Obj [(''name'', Str ''get_weather''), (''args'', Obj [])]\<rparr>"

definition example_usage_chunk :: StreamChunk where
  "example_usage_chunk =
     \<lparr>type = ''usage'', data = Obj [(''inputTokens'', Num 10), (''outputTokens'', Num 5)]\<rparr>"

definition example_bad_chunk :: StreamChunk where
  "example_bad_chunk = \<lparr>type = ''tool_code'', data = Obj [(''name'', Str ''get_weather'')]\<rparr>"

definition example_end_chunk :: StreamChunk where
  "example_end_chunk = \<lparr>type = ''reasoning_end'', data = Obj [(''finished'', Bool True)]\<rparr>"

text \<open>A second platform: the same first random id and clock, other random ids after it.\<close>

definition example_other_platform :: Platform where
  "example_other_platform =
     example_platform
       \<lparr>randomUUID := (\<lambda>n. if n = 0 then randomUUID example_platform 0 else ''other-'' @ decimal n)\<rparr>"

section \<open>Reading and writing properties\<close>

lemma map_fst_assign:
  "map fst (assign k v kvs) = (if k \<in> set (map fst kvs) then map fst kvs else map fst kvs @ [k])"
  by (induction kvs) force+

lemma map_of_assign: "map_of (assign k v kvs) k' = (if k' = k then Some v else map_of kvs k')"
  by (induction kvs) auto

lemma distinct_keys_js_set: "distinct_keys obj \<Longrightarrow> distinct_keys (js_set k v obj)"
  by (cases obj) (simp_all add: map_fst_assign)

lemma js_get_js_set:
  "distinct_keys obj \<Longrightarrow> k \<noteq> ''__proto__'' \<Longrightarrow>
   js_get k' (js_set k v obj) = (if k' = k then v else js_get k' obj)"
  by (cases obj) (simp_all add: map_of_assign)

lemma map_of_defined:
  "distinct (map fst kvs) \<Longrightarrow>
   map_of (filter (\<lambda>kv. snd kv \<noteq> Undef) kvs) k =
     (if map_of kvs k = Some Undef then None else map_of kvs k)"
proof (induction kvs)
  case Nil
  then show ?case by simp
next
  case (Cons p kvs)
  then have "fst p \<notin> fst ` set kvs" by simp
  then have "map_of kvs (fst p) = None" by (simp add: map_of_eq_None_iff)
  with Cons show ?case by (cases p) auto
qed

lemma js_get_defined:
  "distinct_keys obj \<Longrightarrow>
   js_get k (Obj (filter (\<lambda>kv. snd kv \<noteq> Undef) (entries obj))) = js_get k obj"
  by (cases obj) (simp_all add: map_of_defined split: option.splits)

section \<open>Facts about the examples\<close>

lemma example_models_thinking:
  "isThinkingModel example_models ''gemini-2.5-pro''"
  "isThinkingModel example_models ''gemini-2.5-flash''"
  "\<not> isThinkingModel example_models ''gemini-2.0-flash''"
  "\<not> isThinkingModel example_models ''text-model''"
  by (simp_all add: isThinkingModel_def example_models_def)

lemma example_request_hint: "reasoning_effort_hint example_request = Str ''high''"
  by (simp add: reasoning_effort_hint_def example_request_def js_or_def js_get_opt_def)

lemma example_flash:
  "includes_str ''gemini-2.5-flash'' ''flash''" "\<not> includes_str ''gemini-2.5-pro'' ''flash''"
  unfolding includes_str_def by code_simp+

section \<open>Thinking budget\<close>

text \<open>
  Claim C2. On a model that the model table marks as thinking, \<open>validateThinkingBudget\<close>
  returns the default sentinel, which is \<open>-1\<close>, for the budget \<open>0\<close> and for every
  budget below \<open>-1\<close>, and returns every other budget (at least \<open>-1\<close> and not
  \<open>0\<close>) as it is; on a model not marked so, every budget is returned as it is.
\<close>

theorem validateThinkingBudget_correction:
  "(isThinkingModel models modelId \<longrightarrow>
      ((b = 0 \<or> b < - 1 \<longrightarrow>
          validateThinkingBudget models modelId b = DEFAULT_THINKING_BUDGET
          \<and> DEFAULT_THINKING_BUDGET = - 1)
       \<and> (- 1 \<le> b \<and> b \<noteq> 0 \<longrightarrow> validateThinkingBudget models modelId b = b)))
   \<and> (\<not> isThinkingModel models modelId \<longrightarrow> validateThinkingBudget models modelId b = b)"
  by (simp add: validateThinkingBudget_def DEFAULT_THINKING_BUDGET_def)

theorem validateThinkingBudget_correction_witness:
  "isThinkingModel example_models ''gemini-2.5-pro''
   \<and> validateThinkingBudget example_models ''gemini-2.5-pro'' 0 = - 1
   \<and> validateThinkingBudget example_models ''gemini-2.5-pro'' (- 5) = - 1
   \<and> validateThinkingBudget example_models ''gemini-2.5-pro'' (- 1) = - 1
   \<and> validateThinkingBudget example_models ''gemini-2.5-pro'' 1024 = 1024
   \<and> \<not> isThinkingModel example_models ''gemini-2.0-flash''
   \<and> validateThinkingBudget example_models ''gemini-2.0-flash'' 0 = 0
   \<and> validateThinkingBudget example_models ''gemini-2.0-flash'' (- 5) = - 5"
  using validateThinkingBudget_correction [of example_models "''gemini-2.5-pro''" 0]
    validateThinkingBudget_correction [of example_models "''gemini-2.5-pro''" "- 5"]
    validateThinkingBudget_correction [of example_models "''gemini-2.5-pro''" "- 1"]
    validateThinkingBudget_correction [of example_models "''gemini-2.5-pro''" 1024]
    validateThinkingBudget_correction [of example_models "''gemini-2.0-flash''" 0]
    validateThinkingBudget_correction [of example_models "''gemini-2.0-flash''" "- 5"]
    example_models_thinking
  by simp

section \<open>Reasoning effort\<close>

lemma distinct_keys_samplingConfig: "distinct_keys (samplingConfig constants options)"
  by (simp add: samplingConfig_def Let_def map_fst_assign)

lemma thinkingConfig_of_config:
  assumes "isThinkingModel models modelId"
  shows "js_get ''thinkingConfig''
     (createValidatedConfig models constants modelId options isRealThinkingEnabled includeReasoning) =
   (let sel = thinkingSelection (REASONING_EFFORT_BUDGETS constants) modelId options includeReasoning
    in if isRealThinkingEnabled \<and> snd sel
       then Obj [(''thinkingBudget'', Num (validateThinkingBudget models modelId (fst sel))),
                 (''includeThoughts'', Bool True)]
       else Obj [(''thinkingBudget'',
                   Num (validateThinkingBudget models modelId DEFAULT_THINKING_BUDGET)),
                 (''includeThoughts'', Bool False)])"
proof -
  obtain tb ir where sel:
    "thinkingSelection (REASONING_EFFORT_BUDGETS constants) modelId options includeReasoning = (tb, ir)"
    by (cases "thinkingSelection (REASONING_EFFORT_BUDGETS constants) modelId options includeReasoning")
  have d: "distinct_keys (samplingConfig constants options)" by (rule distinct_keys_samplingConfig)
  have get: "js_get ''thinkingConfig''
      (Obj (filter (\<lambda>kv. snd kv \<noteq> Undef)
              (entries (js_set ''thinkingConfig'' v (samplingConfig constants options))))) = v" for v
    using js_get_defined [OF distinct_keys_js_set [OF d], of "''thinkingConfig''" "''thinkingConfig''" v]
      js_get_js_set [OF d, of "''thinkingConfig''" "''thinkingConfig''" v]
    by simp
  show ?thesis
    unfolding createValidatedConfig_def Let_def sel using assms
    by (simp only: get if_True split: if_splits prod.splits) simp
qed

lemma isValidEffortLevel_truthy: "isValidEffortLevel hint \<Longrightarrow> truthy hint"
  by (cases hint) (auto simp: isValidEffortLevel_def)

lemma thinkingSelection_valid:
  "isValidEffortLevel (reasoning_effort_hint options) \<Longrightarrow>
   thinkingSelection budgets modelId options includeReasoning =
     (mapEffortToThinkingBudget budgets (str_of (reasoning_effort_hint options)) modelId,
      reasoning_effort_hint options \<noteq> Str ''none'')"
  by (simp add: thinkingSelection_def Let_def isValidEffortLevel_truthy)

lemma reasoning_effort_hint_budget:
  "reasoning_effort_hint (options\<lparr>thinking_budget := tb\<rparr>) = reasoning_effort_hint options"
  by (simp add: reasoning_effort_hint_def)

lemma samplingConfig_budget:
  "samplingConfig constants (options\<lparr>thinking_budget := tb\<rparr>) = samplingConfig constants options"
  by (simp add: samplingConfig_def)

text \<open>
  Claim C3. On a thinking model, the effort hint is the first truthy one of the top-level
  field, the field of \<^verbatim>\<open>extra_body\<close> and the field of \<^verbatim>\<open>model_params\<close>. When it is
  one of none, low, medium and high, the budget it selects from the effort table replaces
  any explicit \<^verbatim>\<open>thinking_budget\<close>, and \<^verbatim>\<open>includeReasoning\<close> becomes false for none
  and true for the three others, whatever the caller passed: the built config does not
  depend on the explicit budget or on the caller's flag, and its \<^verbatim>\<open>thinkingConfig\<close> holds
  the validated table budget with visible thoughts when real thinking is enabled and the
  effort is not none, and the validated default budget with hidden thoughts otherwise. For
  medium and for high, a model id that contains \<^verbatim>\<open>flash\<close> gets the flash entry of the
  table and any other model id the default entry.
\<close>

theorem effort_overrides_budget:
  assumes "isThinkingModel models modelId"
    and "isValidEffortLevel (reasoning_effort_hint options)"
  shows
    "reasoning_effort_hint options =
       (if truthy (reasoning_effort options) then reasoning_effort options
        else if truthy (js_get_opt ''reasoning_effort'' (extra_body options))
        then js_get_opt ''reasoning_effort'' (extra_body options)
        else js_get_opt ''reasoning_effort'' (model_params options))
     \<and> thinkingSelection budgets modelId (options\<lparr>thinking_budget := tb\<rparr>) includeReasoning =
         (mapEffortToThinkingBudget budgets (str_of (reasoning_effort_hint options)) modelId,
          reasoning_effort_hint options \<noteq> Str ''none'')
     \<and> createValidatedConfig models constants modelId (options\<lparr>thinking_budget := tb\<rparr>)
           isRealThinkingEnabled includeReasoning =
         createValidatedConfig models constants modelId options isRealThinkingEnabled includeReasoning'
     \<and> js_get ''thinkingConfig''
           (createValidatedConfig models constants modelId options isRealThinkingEnabled
              includeReasoning) =
         (if isRealThinkingEnabled \<and> reasoning_effort_hint options \<noteq> Str ''none''
          then Obj [(''thinkingBudget'',
                      Num (validateThinkingBudget models modelId
                             (mapEffortToThinkingBudget (REASONING_EFFORT_BUDGETS constants)
                                (str_of (reasoning_effort_hint options)) modelId))),
                    (''includeThoughts'', Bool True)]
          else Obj [(''thinkingBudget'',
                      Num (validateThinkingBudget models modelId DEFAULT_THINKING_BUDGET)),
                    (''includeThoughts'', Bool False)])
     \<and> (includes_str flashId ''flash'' \<and> \<not> includes_str otherId ''flash'' \<longrightarrow>
          mapEffortToThinkingBudget budgets ''medium'' flashId = budget_medium_flash budgets
          \<and> mapEffortToThinkingBudget budgets ''medium'' otherId = budget_medium_default budgets
          \<and> mapEffortToThinkingBudget budgets ''high'' flashId = budget_high_flash budgets
          \<and> mapEffortToThinkingBudget budgets ''high'' otherId = budget_high_default budgets)"
proof -
  have valid': "isValidEffortLevel (reasoning_effort_hint (options\<lparr>thinking_budget := tb\<rparr>))"
    using assms(2) by (simp add: reasoning_effort_hint_budget)
  have order: "reasoning_effort_hint options =
       (if truthy (reasoning_effort options) then reasoning_effort options
        else if truthy (js_get_opt ''reasoning_effort'' (extra_body options))
        then js_get_opt ''reasoning_effort'' (extra_body options)
        else js_get_opt ''reasoning_effort'' (model_params options))"
    by (simp add: reasoning_effort_hint_def js_or_def)
  have sel: "thinkingSelection b modelId (options\<lparr>thinking_budget := tb\<rparr>) ir =
         (mapEffortToThinkingBudget b (str_of (reasoning_effort_hint options)) modelId,
          reasoning_effort_hint options \<noteq> Str ''none'')" for b ir
    using thinkingSelection_valid [OF valid'] by (simp add: reasoning_effort_hint_budget)
  have sel0: "thinkingSelection b modelId options ir =
         (mapEffortToThinkingBudget b (str_of (reasoning_effort_hint options)) modelId,
          reasoning_effort_hint options \<noteq> Str ''none'')" for b ir
    using thinkingSelection_valid [OF assms(2)] by simp
  have indep: "createValidatedConfig models constants modelId (options\<lparr>thinking_budget := tb\<rparr>)
           isRealThinkingEnabled includeReasoning =
         createValidatedConfig models constants modelId options isRealThinkingEnabled includeReasoning'"
    unfolding createValidatedConfig_def sel sel0 samplingConfig_budget by (rule refl)
  have cfg: "js_get ''thinkingConfig''
           (createValidatedConfig models constants modelId options isRealThinkingEnabled
              includeReasoning) =
         (if isRealThinkingEnabled \<and> reasoning_effort_hint options \<noteq> Str ''none''
          then Obj [(''thinkingBudget'',
                      Num (validateThinkingBudget models modelId
                             (mapEffortToThinkingBudget (REASONING_EFFORT_BUDGETS constants)
                                (str_of (reasoning_effort_hint options)) modelId))),
                    (''includeThoughts'', Bool True)]
          else Obj [(''thinkingBudget'',
                      Num (validateThinkingBudget models modelId DEFAULT_THINKING_BUDGET)),
                    (''includeThoughts'', Bool False)])"
    unfolding thinkingConfig_of_config [OF assms(1)] sel0 Let_def fst_conv snd_conv by (rule refl)
  have flash: "includes_str flashId ''flash'' \<and> \<not> includes_str otherId ''flash'' \<longrightarrow>
          mapEffortToThinkingBudget budgets ''medium'' flashId = budget_medium_flash budgets
          \<and> mapEffortToThinkingBudget budgets ''medium'' otherId = budget_medium_default budgets
          \<and> mapEffortToThinkingBudget budgets ''high'' flashId = budget_high_flash budgets
          \<and> mapEffortToThinkingBudget budgets ''high'' otherId = budget_high_default budgets"
    by (simp add: mapEffortToThinkingBudget_def)
  from order sel indep cfg flash show ?thesis by (intro conjI)
qed

theorem effort_overrides_budget_witness:
  "isThinkingModel example_models ''gemini-2.5-flash''
   \<and> isValidEffortLevel (reasoning_effort_hint example_request)
   \<and> thinking_budget example_request = Some 5
   \<and> reasoning_effort_hint example_request = Str ''high''
   \<and> thinkingSelection (REASONING_EFFORT_BUDGETS example_constants) ''gemini-2.5-flash''
         (example_request\<lparr>thinking_budget := Some 7\<rparr>) False = (24576, True)
   \<and> js_get ''thinkingConfig''
         (createValidatedConfig example_models example_constants ''gemini-2.5-flash''
            example_request True False) =
       Obj [(''thinkingBudget'', Num 24576), (''includeThoughts'', Bool True)]
   \<and> mapEffortToThinkingBudget (REASONING_EFFORT_BUDGETS example_constants) ''medium''
         ''gemini-2.5-flash'' = 12288
   \<and> mapEffortToThinkingBudget (REASONING_EFFORT_BUDGETS example_constants) ''medium''
         ''gemini-2.5-pro'' = 16384"
proof -
  have t: "isThinkingModel example_models ''gemini-2.5-flash''"
    by (rule example_models_thinking)
  have h: "reasoning_effort_hint example_request = Str ''high''"
    by (rule example_request_hint)
  have v: "isValidEffortLevel (reasoning_effort_hint example_request)"
    by (simp add: h isValidEffortLevel_def)
  have b: "thinking_budget example_request = Some 5"
    by (simp add: example_request_def)
  have m: "mapEffortToThinkingBudget (REASONING_EFFORT_BUDGETS example_constants) ''high''
         ''gemini-2.5-flash'' = 24576"
    by (simp add: mapEffortToThinkingBudget_def example_flash example_constants_def)
  have val: "validateThinkingBudget example_models ''gemini-2.5-flash'' 24576 = 24576"
    by (simp add: validateThinkingBudget_def)
  note w = effort_overrides_budget [OF t v, where budgets = "REASONING_EFFORT_BUDGETS example_constants"
      and tb = "Some 7" and includeReasoning = False and constants = example_constants
      and isRealThinkingEnabled = True and flashId = "''gemini-2.5-flash''"
      and otherId = "''gemini-2.5-pro''"]
  have sel: "thinkingSelection (REASONING_EFFORT_BUDGETS example_constants) ''gemini-2.5-flash''
         (example_request\<lparr>thinking_budget := Some 7\<rparr>) False = (24576, True)"
    using w [THEN conjunct2, THEN conjunct1] by (simp add: h m)
  have cfg: "js_get ''thinkingConfig''
         (createValidatedConfig example_models example_constants ''gemini-2.5-flash''
            example_request True False) =
       Obj [(''thinkingBudget'', Num 24576), (''includeThoughts'', Bool True)]"
    using w [THEN conjunct2, THEN conjunct2, THEN conjunct2, THEN conjunct1]
    by (simp add: h m val)
  have fl: "mapEffortToThinkingBudget (REASONING_EFFORT_BUDGETS example_constants) ''medium''
         ''gemini-2.5-flash'' = 12288
     \<and> mapEffortToThinkingBudget (REASONING_EFFORT_BUDGETS example_constants) ''medium''
         ''gemini-2.5-pro'' = 16384"
    using w [THEN conjunct2, THEN conjunct2, THEN conjunct2, THEN conjunct2] example_flash
    by (simp add: example_constants_def)
  from t v b h sel cfg fl show ?thesis by (intro conjI) (erule conjunct1 conjunct2 | assumption)+
qed

section \<open>Tool choice\<close>

lemma map_throwing_total:
  "\<forall>x \<in> set xs. \<exists>y. f x = Inr y \<Longrightarrow> \<exists>ys. map_throwing f xs = Inr ys"
proof (induction xs)
  case Nil
  then show ?case by simp
next
  case (Cons x xs)
  then obtain y ys where "f x = Inr y" and "map_throwing f xs = Inr ys" by auto
  then show ?case by simp
qed

lemma functionDeclaration_total:
  "\<not> nullish tool \<Longrightarrow> \<not> nullish (js_get ''function'' tool) \<Longrightarrow> \<exists>y. functionDeclaration tool = Inr y"
  by (simp add: functionDeclaration_def Let_def)

text \<open>
  Claim C1, as amended. When custom tools are in use, the custom tool list and the tool
  list of the request are non-empty and every tool has a \<^verbatim>\<open>function\<close>, the tool choice
  \<^verbatim>\<open>auto\<close> gives the function-calling mode AUTO, \<^verbatim>\<open>none\<close> gives NONE, and an object
  whose \<^verbatim>\<open>function\<close> field is truthy gives ANY with the one allowed name
  \<^verbatim>\<open>function.name\<close>, whatever that is; any other tool choice gives the empty object as
  \<^verbatim>\<open>toolConfig\<close>. When neither custom nor native tools apply, \<^verbatim>\<open>tools\<close> and
  \<^verbatim>\<open>toolConfig\<close> are both \<^verbatim>\<open>undefined\<close>.
\<close>

theorem tool_choice_mapping:
  assumes "useCustomTools config" and "customTools config = Some ts" and "ts \<noteq> []"
    and "request_tools options = Arr us" and "us \<noteq> []"
    and "\<forall>t \<in> set ts \<union> set us. \<not> nullish t \<and> \<not> nullish (js_get ''function'' t)"
  shows "map_sum id toolConfig (createFinalToolConfiguration config options) =
           Inr (if tool_choice options = Str ''auto''
                then Obj [(''functionCallingConfig'', Obj [(''mode'', Str ''AUTO'')])]
                else if tool_choice options = Str ''none''
                then Obj [(''functionCallingConfig'', Obj [(''mode'', Str ''NONE'')])]
                else if typeof (tool_choice options) = ''object''
                        \<and> truthy (js_get ''function'' (tool_choice options))
                then Obj [(''functionCallingConfig'',
                           Obj [(''mode'', Str ''ANY''),
                                (''allowedFunctionNames'',
                                 Arr [js_get ''name'' (js_get ''function'' (tool_choice options))])])]
                else Obj [])
         \<and> (\<not> (useCustomTools config' \<and> nonempty (customTools config'))
              \<and> \<not> (useNativeTools config' \<and> nonempty (nativeTools config')) \<longrightarrow>
            createFinalToolConfiguration config' options' = Inr \<lparr>tools = Undef, toolConfig = Undef\<rparr>)"
proof -
  obtain ds where ds: "map_throwing functionDeclaration ts = Inr ds"
    using map_throwing_total [of ts functionDeclaration] functionDeclaration_total assms(6)
    by auto
  obtain es where es: "map_throwing functionDeclaration us = Inr es"
    using map_throwing_total [of us functionDeclaration] functionDeclaration_total assms(6)
    by auto
  have "tool_choice options = Str ''auto'' \<or> tool_choice options = Str ''none''
        \<or> (typeof (tool_choice options) = ''object''
            \<and> truthy (js_get ''function'' (tool_choice options)))
        \<Longrightarrow> truthy (tool_choice options)"
    by (cases "tool_choice options") auto
  then have first: "map_sum id toolConfig (createFinalToolConfiguration config options) =
           Inr (if tool_choice options = Str ''auto''
                then Obj [(''functionCallingConfig'', Obj [(''mode'', Str ''AUTO'')])]
                else if tool_choice options = Str ''none''
                then Obj [(''functionCallingConfig'', Obj [(''mode'', Str ''NONE'')])]
                else if typeof (tool_choice options) = ''object''
                        \<and> truthy (js_get ''function'' (tool_choice options))
                then Obj [(''functionCallingConfig'',
                           Obj [(''mode'', Str ''ANY''),
                                (''allowedFunctionNames'',
                                 Arr [js_get ''name'' (js_get ''function'' (tool_choice options))])])]
                else Obj [])"
    using assms(1-5) ds es
    by (auto simp: createFinalToolConfiguration_def createValidateTools_def nonempty_def)
  have second: "\<not> (useCustomTools config' \<and> nonempty (customTools config'))
              \<and> \<not> (useNativeTools config' \<and> nonempty (nativeTools config')) \<longrightarrow>
            createFinalToolConfiguration config' options' = Inr \<lparr>tools = Undef, toolConfig = Undef\<rparr>"
    by (auto simp: createFinalToolConfiguration_def)
  from first second show ?thesis by (rule conjI)
qed

theorem tool_choice_mapping_witness:
  "map_sum id toolConfig
     (createFinalToolConfiguration example_tools_config
        (example_tools_request
           \<lparr>tool_choice :=
              Obj [(''type'', Str ''function''), (''function'', Obj [(''name'', Str ''get_weather'')])]\<rparr>)) =
   Inr (Obj [(''functionCallingConfig'',
              Obj [(''mode'', Str ''ANY''), (''allowedFunctionNames'', Arr [Str ''get_weather''])])])
   \<and> map_sum id toolConfig
       (createFinalToolConfiguration example_tools_config
          (example_tools_request\<lparr>tool_choice := Str ''none''\<rparr>)) =
     Inr (Obj [(''functionCallingConfig'', Obj [(''mode'', Str ''NONE'')])])
   \<and> map_sum id toolConfig
       (createFinalToolConfiguration example_tools_config
          (example_tools_request\<lparr>tool_choice := Str ''required''\<rparr>)) =
     Inr (Obj [])
   \<and> createFinalToolConfiguration (example_tools_config\<lparr>useCustomTools := False\<rparr>)
       example_tools_request = Inr \<lparr>tools = Undef, toolConfig = Undef\<rparr>"
proof -
  have a: "useCustomTools example_tools_config"
    and b: "customTools example_tools_config = Some [example_tool]"
    and c: "[example_tool] \<noteq> []"
    by (simp_all add: example_tools_config_def)
  have d: "request_tools (example_tools_request\<lparr>tool_choice := x\<rparr>) = Arr [example_tool]" for x
    by (simp add: example_tools_request_def)
  have e: "\<forall>t \<in> set [example_tool] \<union> set [example_tool].
             \<not> nullish t \<and> \<not> nullish (js_get ''function'' t)"
    by (simp add: example_tool_def)
  have f: "\<not> (useCustomTools (example_tools_config\<lparr>useCustomTools := False\<rparr>)
              \<and> nonempty (customTools (example_tools_config\<lparr>useCustomTools := False\<rparr>)))
           \<and> \<not> (useNativeTools (example_tools_config\<lparr>useCustomTools := False\<rparr>)
              \<and> nonempty (nativeTools (example_tools_config\<lparr>useCustomTools := False\<rparr>)))"
    by (simp add: example_tools_config_def)
  note w = tool_choice_mapping [OF a b c d c e]
  have "map_sum id toolConfig
     (createFinalToolConfiguration example_tools_config
        (example_tools_request
           \<lparr>tool_choice :=
              Obj [(''type'', Str ''function''), (''function'', Obj [(''name'', Str ''get_weather'')])]\<rparr>)) =
   Inr (Obj [(''functionCallingConfig'',
              Obj [(''mode'', Str ''ANY''), (''allowedFunctionNames'', Arr [Str ''get_weather''])])])"
    using w [THEN conjunct1] by simp
  moreover have "map_sum id toolConfig
       (createFinalToolConfiguration example_tools_config
          (example_tools_request\<lparr>tool_choice := Str ''none''\<rparr>)) =
     Inr (Obj [(''functionCallingConfig'', Obj [(''mode'', Str ''NONE'')])])"
    using w [THEN conjunct1] by simp
  moreover have "map_sum id toolConfig
       (createFinalToolConfiguration example_tools_config
          (example_tools_request\<lparr>tool_choice := Str ''required''\<rparr>)) =
     Inr (Obj [])"
    using w [THEN conjunct1] by simp
  moreover have "createFinalToolConfiguration (example_tools_config\<lparr>useCustomTools := False\<rparr>)
       example_tools_request = Inr \<lparr>tools = Undef, toolConfig = Undef\<rparr>"
    using w [THEN conjunct2] f by blast
  ultimately show ?thesis by (intro conjI)
qed

text \<open>
  The claim as stated fails: the tool choice \<^verbatim>\<open>{type: "function", function: {}}\<close> names
  no function, and the tool configuration still forces the mode ANY, with the allowed name
  \<^verbatim>\<open>undefined\<close>.
\<close>

theorem tool_choice_malformed_counterexample:
  "map_sum id toolConfig
     (createFinalToolConfiguration example_tools_config
        (example_tools_request
           \<lparr>tool_choice := Obj [(''type'', Str ''function''), (''function'', Obj [])]\<rparr>)) =
   Inr (Obj [(''functionCallingConfig'',
              Obj [(''mode'', Str ''ANY''), (''allowedFunctionNames'', Arr [Undef])])])"
  by code_simp

section \<open>Type normalisation\<close>

lemma js_in_js_set:
  "distinct_keys obj \<Longrightarrow> k \<noteq> ''__proto__'' \<Longrightarrow> js_in k' (js_set k v obj) = (k' = k \<or> js_in k' obj)"
  by (cases obj) (auto simp: map_fst_assign)

lemma distinct_keys_js_delete: "distinct_keys obj \<Longrightarrow> distinct_keys (js_delete k obj)"
  by (cases obj) (simp_all add: distinct_map_filter)

lemma map_of_remove: "map_of (filter (\<lambda>p. fst p \<noteq> k) kvs) k' = (if k' = k then None else map_of kvs k')"
  by (induction kvs) auto

lemma js_get_js_delete:
  "distinct_keys obj \<Longrightarrow> js_get k' (js_delete k obj) = (if k' = k then Undef else js_get k' obj)"
  by (cases obj) (simp_all add: map_of_remove)

lemma js_in_js_delete:
  "distinct_keys obj \<Longrightarrow> js_in k' (js_delete k obj) = (k' \<noteq> k \<and> js_in k' obj)"
  by (cases obj) auto

lemma allowList_plain: "k \<in> set allowList \<Longrightarrow> \<not> startsWith k ''$'' \<and> k \<noteq> ''__proto__''"
  by (auto simp: allowList_def startsWith_def)

text \<open>The allow-list copy keeps exactly the allowed properties of a plain object.\<close>

lemma distinct_keys_strip_fold: "distinct_keys (foldl strip_step (Obj []) kvs)"
  by (induction kvs rule: rev_induct) (simp_all add: strip_step_def distinct_keys_js_set)

lemma js_get_strip_fold:
  "distinct (map fst kvs) \<Longrightarrow>
   js_get k (foldl strip_step (Obj []) kvs) = (if k \<in> set allowList then js_get k (Obj kvs) else Undef)"
proof (induction kvs rule: rev_induct)
  case Nil
  then show ?case by simp
next
  case (snoc kv kvs)
  then have fresh: "map_of kvs (fst kv) = None"
    by (simp add: map_of_eq_None_iff)
  have d: "distinct_keys (foldl strip_step (Obj []) kvs)" by (rule distinct_keys_strip_fold)
  from snoc have ih: "js_get k (foldl strip_step (Obj []) kvs) =
      (if k \<in> set allowList then js_get k (Obj kvs) else Undef)" by simp
  show ?case
  proof (cases "fst kv \<in> set allowList")
    case True
    then have "foldl strip_step (Obj []) (kvs @ [kv]) =
        js_set (fst kv) (snd kv) (foldl strip_step (Obj []) kvs)"
      using allowList_plain [OF True] by (simp add: strip_step_def)
    then show ?thesis
      using js_get_js_set [OF d, of "fst kv" k "snd kv"] allowList_plain [OF True] ih fresh True
      by (cases kv) (auto simp: map_add_def split: option.splits)
  next
    case False
    then have "foldl strip_step (Obj []) (kvs @ [kv]) = foldl strip_step (Obj []) kvs"
      by (simp add: strip_step_def)
    then show ?thesis using ih False
      by (cases kv) (auto simp: map_add_def split: option.splits)
  qed
qed

lemma stripUnsupportedKeys_fold: "stripUnsupportedKeys schema = foldl strip_step (Obj []) (entries schema)"
  unfolding stripUnsupportedKeys_def strip_step_def by (rule refl)

lemma distinct_keys_strip: "distinct_keys (stripUnsupportedKeys schema)"
  by (simp add: stripUnsupportedKeys_fold distinct_keys_strip_fold)

lemma js_get_strip:
  "distinct_keys schema \<Longrightarrow>
   js_get k (stripUnsupportedKeys schema) = (if k \<in> set allowList then js_get k schema else Undef)"
  by (cases schema) (simp_all add: stripUnsupportedKeys_fold js_get_strip_fold)

lemma agrees_refl: "distinct_keys a \<Longrightarrow> agrees a a"
  by (simp add: agrees_def)

lemma agrees_js_set:
  "agrees a b \<Longrightarrow>
   k \<in> {''properties'', ''items'', ''required'', ''enum'', ''description'', ''format''} \<Longrightarrow>
   agrees a (js_set k v b)"
  unfolding agrees_def
  by (auto simp: distinct_keys_js_set js_get_js_set js_in_js_set)

lemma agrees_if_set:
  "agrees a b \<Longrightarrow>
   k \<in> {''properties'', ''items'', ''required'', ''enum'', ''description'', ''format''} \<Longrightarrow>
   agrees a (if c then js_set k v b else b)"
  using agrees_js_set by simp

lemma agrees_if: "agrees a x \<Longrightarrow> agrees a y \<Longrightarrow> agrees a (if c then x else y)"
  by simp

lemma distinct_keys_typed_copy: "distinct_keys (typed_copy input)"
  by (simp add: typed_copy_def Let_def distinct_keys_strip distinct_keys_js_set
      distinct_keys_js_delete)

lemma convert_agrees:
  assumes "distinct_keys schema"
  shows "agrees (typed_copy schema) (convertJSONSchemaToGeminiSchema schema)"
proof -
  from assms obtain kvs where "schema = Obj kvs" by (cases schema) simp_all
  then have guard: "\<not> (\<not> truthy schema \<or> typeof schema \<noteq> ''object'')" by simp
  have base: "agrees (typed_copy schema) (typed_copy schema)"
    by (rule agrees_refl) (rule distinct_keys_typed_copy)
  show ?thesis
    apply (subst convertJSONSchemaToGeminiSchema.simps)
    apply (simp only: guard if_False Let_def)
    apply (simp only: typed_copy_def [unfolded Let_def, symmetric])
    apply (intro agrees_if_set agrees_if base)
    apply simp_all
    done
qed

lemma toGeminiType_range:
  "toGeminiType t \<in> {Undef, Str ''OBJECT'', Str ''STRING'', Str ''NUMBER'', Str ''INTEGER'',
                       Str ''BOOLEAN'', Str ''ARRAY''}"
  by (induction t rule: toGeminiType.induct) (simp_all add: Let_def)

lemma toGeminiType_falsy: "\<not> truthy (toGeminiType t) \<Longrightarrow> toGeminiType t = Undef"
  using toGeminiType_range [of t] by auto

lemma toGeminiType_table:
  "toGeminiType (Str ''object'') = Str ''OBJECT''"
  "toGeminiType (Str ''string'') = Str ''STRING''"
  "toGeminiType (Str ''number'') = Str ''NUMBER''"
  "toGeminiType (Str ''integer'') = Str ''INTEGER''"
  "toGeminiType (Str ''boolean'') = Str ''BOOLEAN''"
  "toGeminiType (Str ''array'') = Str ''ARRAY''"
  by code_simp+

lemma find_nonNull_first:
  "find_nonNull ts = (case dropWhile (\<lambda>t. t = Str ''null'') ts of [] \<Rightarrow> Undef | t # _ \<Rightarrow> t)"
  by (induction ts) (simp_all add: find_nonNull_def)

lemma typed_copy_type:
  assumes "distinct_keys schema"
  shows "js_get ''type'' (typed_copy schema) = toGeminiType (js_get ''type'' schema)"
proof -
  have s: "js_get ''type'' (stripUnsupportedKeys schema) = js_get ''type'' schema"
    using js_get_strip [OF assms, of "''type''"] by (simp add: allowList_def)
  have d: "distinct_keys (stripUnsupportedKeys schema)" by (rule distinct_keys_strip)
  show ?thesis
    unfolding typed_copy_def Let_def s
    using toGeminiType_falsy [of "js_get ''type'' schema"] s
    by (auto simp: js_get_js_set js_get_js_delete d distinct_keys_js_set distinct_keys_js_delete)
qed

lemma typed_copy_unmapped:
  assumes "distinct_keys schema" and "js_get ''type'' schema \<noteq> Undef"
    and "toGeminiType (js_get ''type'' schema) = Undef"
  shows "\<not> js_in ''type'' (typed_copy schema)"
proof -
  have s: "js_get ''type'' (stripUnsupportedKeys schema) = js_get ''type'' schema"
    using js_get_strip [OF assms(1), of "''type''"] by (simp add: allowList_def)
  have d: "distinct_keys (stripUnsupportedKeys schema)" by (rule distinct_keys_strip)
  show ?thesis
    unfolding typed_copy_def Let_def s
    using assms(2,3)
    by (simp add: js_in_js_set js_in_js_delete d distinct_keys_js_delete)
qed

lemma typed_copy_nullable:
  assumes "distinct_keys schema" and "js_get ''type'' schema = Arr ts" and "Str ''null'' \<in> set ts"
  shows "js_get ''nullable'' (typed_copy schema) = Bool True"
proof -
  have d: "distinct_keys (stripUnsupportedKeys schema)" by (rule distinct_keys_strip)
  show ?thesis
    unfolding typed_copy_def Let_def
    using assms(2,3)
    by (simp add: js_get_js_set d distinct_keys_js_set distinct_keys_js_delete)
qed

text \<open>
  Claim C4. The type of a schema is normalised by \<open>toGeminiType\<close>: an array-valued
  type stands for its first entry that is not the string \<^verbatim>\<open>null\<close>; a type string is
  mapped without regard to letter case, the six names object, string, number, integer,
  boolean and array to the upper-case names of the backend, and nothing else is ever
  produced. The converted schema of a plain object carries the mapped type; when the type
  is present and unmapped, the converted schema has no type key at all; and for the type
  \<^verbatim>\<open>["string", "null"]\<close> the converted schema has the type \<^verbatim>\<open>STRING\<close> and
  \<^verbatim>\<open>nullable\<close> true.
\<close>

theorem type_normalization:
  assumes "distinct_keys schema"
  shows
    "find_nonNull ts = (case dropWhile (\<lambda>t. t = Str ''null'') ts of [] \<Rightarrow> Undef | t # _ \<Rightarrow> t)
     \<and> toGeminiType (Arr ts) = toGeminiType (find_nonNull ts)
     \<and> (toLowerCase s = toLowerCase s' \<longrightarrow> toGeminiType (Str s) = toGeminiType (Str s'))
     \<and> toGeminiType (Str ''object'') = Str ''OBJECT''
     \<and> toGeminiType (Str ''string'') = Str ''STRING''
     \<and> toGeminiType (Str ''number'') = Str ''NUMBER''
     \<and> toGeminiType (Str ''integer'') = Str ''INTEGER''
     \<and> toGeminiType (Str ''boolean'') = Str ''BOOLEAN''
     \<and> toGeminiType (Str ''array'') = Str ''ARRAY''
     \<and> toGeminiType t \<in> {Undef, Str ''OBJECT'', Str ''STRING'', Str ''NUMBER'', Str ''INTEGER'',
                           Str ''BOOLEAN'', Str ''ARRAY''}
     \<and> js_get ''type'' (convertJSONSchemaToGeminiSchema schema) =
         toGeminiType (js_get ''type'' schema)
     \<and> (js_get ''type'' schema \<noteq> Undef \<and> toGeminiType (js_get ''type'' schema) = Undef \<longrightarrow>
          \<not> js_in ''type'' (convertJSONSchemaToGeminiSchema schema))
     \<and> (js_get ''type'' schema = Arr [Str ''string'', Str ''null''] \<longrightarrow>
          js_get ''type'' (convertJSONSchemaToGeminiSchema schema) = Str ''STRING''
          \<and> js_get ''nullable'' (convertJSONSchemaToGeminiSchema schema) = Bool True)"
proof -
  note a = convert_agrees [OF assms, unfolded agrees_def]
  have ty: "js_get ''type'' (convertJSONSchemaToGeminiSchema schema) =
         toGeminiType (js_get ''type'' schema)"
    using a typed_copy_type [OF assms] by simp
  have un: "js_get ''type'' schema \<noteq> Undef \<and> toGeminiType (js_get ''type'' schema) = Undef \<longrightarrow>
          \<not> js_in ''type'' (convertJSONSchemaToGeminiSchema schema)"
    using a typed_copy_unmapped [OF assms] by simp
  have str: "toGeminiType (Arr [Str ''string'', Str ''null'']) = Str ''STRING''"
    by code_simp
  have nu: "js_get ''type'' schema = Arr [Str ''string'', Str ''null''] \<longrightarrow>
          js_get ''type'' (convertJSONSchemaToGeminiSchema schema) = Str ''STRING''
          \<and> js_get ''nullable'' (convertJSONSchemaToGeminiSchema schema) = Bool True"
  proof
    assume t: "js_get ''type'' schema = Arr [Str ''string'', Str ''null'']"
    have 1: "js_get ''type'' (convertJSONSchemaToGeminiSchema schema) = Str ''STRING''"
      by (simp only: ty t str)
    have "Str ''null'' \<in> set [Str ''string'', Str ''null'']" by simp
    then have "js_get ''nullable'' (typed_copy schema) = Bool True"
      by (rule typed_copy_nullable [OF assms t])
    moreover have "js_get ''nullable'' (convertJSONSchemaToGeminiSchema schema) =
        js_get ''nullable'' (typed_copy schema)"
      using a by blast
    ultimately have 2: "js_get ''nullable'' (convertJSONSchemaToGeminiSchema schema) = Bool True"
      by simp
    from 1 2 show "js_get ''type'' (convertJSONSchemaToGeminiSchema schema) = Str ''STRING''
          \<and> js_get ''nullable'' (convertJSONSchemaToGeminiSchema schema) = Bool True"
      by (rule conjI)
  qed
  have ci: "toLowerCase s = toLowerCase s' \<longrightarrow> toGeminiType (Str s) = toGeminiType (Str s')"
    by simp
  have ar: "toGeminiType (Arr ts) = toGeminiType (find_nonNull ts)" by simp
  from find_nonNull_first [of ts] ar ci toGeminiType_table toGeminiType_range [of t] ty un nu
  show ?thesis by (intro conjI)
qed

theorem type_normalization_witness:
  "distinct_keys example_schema
   \<and> js_get ''type'' example_schema = Arr [Str ''string'', Str ''null'']
   \<and> js_get ''type'' (convertJSONSchemaToGeminiSchema example_schema) = Str ''STRING''
   \<and> js_get ''nullable'' (convertJSONSchemaToGeminiSchema example_schema) = Bool True
   \<and> toGeminiType (Str ''Boolean'') = Str ''BOOLEAN''
   \<and> distinct_keys example_date_schema
   \<and> js_get ''type'' example_date_schema = Str ''date''
   \<and> toGeminiType (Str ''date'') = Undef
   \<and> \<not> js_in ''type'' (convertJSONSchemaToGeminiSchema example_date_schema)"
proof -
  have d1: "distinct_keys example_schema" by (simp add: example_schema_def)
  have t1: "js_get ''type'' example_schema = Arr [Str ''string'', Str ''null'']"
    by (simp add: example_schema_def)
  have d2: "distinct_keys example_date_schema" by (simp add: example_date_schema_def)
  have t2: "js_get ''type'' example_date_schema = Str ''date''"
    by (simp add: example_date_schema_def)
  have u2: "toGeminiType (Str ''date'') = Undef" by code_simp
  have l: "toLowerCase ''Boolean'' = toLowerCase ''boolean''" by code_simp
  note w1 = type_normalization [OF d1, where s = "''Boolean''" and s' = "''boolean''"]
  note w2 = type_normalization [OF d2]
  have "js_get ''type'' (convertJSONSchemaToGeminiSchema example_schema) = Str ''STRING''
    \<and> js_get ''nullable'' (convertJSONSchemaToGeminiSchema example_schema) = Bool True"
    using w1 t1 by blast
  moreover have "toGeminiType (Str ''Boolean'') = Str ''BOOLEAN''"
    using w1 l by metis
  moreover have "\<not> js_in ''type'' (convertJSONSchemaToGeminiSchema example_date_schema)"
    using w2 t2 u2 by simp
  ultimately show ?thesis using d1 t1 d2 t2 u2 by (intro conjI) (erule conjunct1 conjunct2 | assumption)+
qed

section \<open>Encodings of the properties\<close>

text \<open>
  Claim C5 fails on the code. The empty set of properties, written as the mapping
  \<^verbatim>\<open>{}\<close> and as the empty sequence \<^verbatim>\<open>[]\<close>, gives two different converted schemas:
  nothing is converted, so the converter keeps the \<^verbatim>\<open>properties\<close> value that its
  allow-list copy took over from the input, as it was written.
\<close>

theorem empty_properties_shapes_differ:
  "convertJSONSchemaToGeminiSchema (Obj [(''type'', Str ''object''), (''properties'', Obj [])]) =
     Obj [(''type'', Str ''OBJECT''), (''properties'', Obj [])]
   \<and> convertJSONSchemaToGeminiSchema (Obj [(''type'', Str ''object''), (''properties'', Arr [])]) =
     Obj [(''type'', Str ''OBJECT''), (''properties'', Arr [])]"
  by code_simp

section \<open>Finish reason\<close>

lemma has_tool_call_switch:
  "has_tool_call (fst (switch_chunk platform tr st chunk)) =
     (has_tool_call st \<or> assigns_tool_call chunk)"
  by (simp add: switch_chunk_def has_tool_call_def assigns_tool_call_def Let_def)

lemma fst_transform:
  "fst (transform platform tr st chunk) = fst (switch_chunk platform tr st chunk)"
  by (cases "switch_chunk platform tr st chunk") (simp add: transform_def split: option.splits)

lemma has_tool_call_transform:
  "has_tool_call (fst (transform platform tr st chunk)) =
     (has_tool_call st \<or> assigns_tool_call chunk)"
  by (simp only: fst_transform has_tool_call_switch)

lemma has_tool_call_run:
  "has_tool_call (fst (run_chunks platform tr st chunks)) =
     (has_tool_call st \<or> (\<exists>c \<in> set chunks. assigns_tool_call c))"
proof (induction chunks arbitrary: st)
  case Nil
  then show ?case by simp
next
  case (Cons c chunks)
  show ?case
    using Cons.IH [of "fst (transform platform tr st c)"]
      has_tool_call_transform [of platform tr st c]
    by (auto split: prod.splits)
qed

lemma terminal_stream:
  "terminal (stream platform model_name outputMode chunks) =
     payload (hd (flush platform (fst (createOpenAIStreamTransformer platform model_name outputMode))
        (fst (run_chunks platform (fst (createOpenAIStreamTransformer platform model_name outputMode))
           (snd (createOpenAIStreamTransformer platform model_name outputMode)) chunks))))"
  by (simp add: stream_def terminal_def flush_def Let_def split: prod.splits)

lemma finish_reason_flush:
  "finish_reason (payload (hd (flush platform tr st))) =
     Str (if has_tool_call st then ''tool_calls'' else ''stop'')"
  by (simp add: flush_def Let_def finish_reason_def has_tool_call_def js_index_def map_of_assign)

lemma initial_state:
  "snd (createOpenAIStreamTransformer platform model_name outputMode) =
     \<lparr>firstChunk = True, toolCallId = None, toolCallName = Null, usageData = Undef, uuidCalls = 1\<rparr>"
  by (simp add: createOpenAIStreamTransformer_def Let_def)

text \<open>
  Claim C6. The terminal frame of a finished stream, the one before the end-of-stream
  sentinel, has the finish reason \<^verbatim>\<open>tool_calls\<close> when some chunk of the stream is a
  \<^verbatim>\<open>tool_code\<close> chunk with a function call (the chunks that assign a tool-call id), and
  \<^verbatim>\<open>stop\<close> when none is.
\<close>

theorem finish_reason_of_stream:
  "finish_reason (terminal (stream platform model_name outputMode chunks)) =
     Str (if \<exists>c \<in> set chunks. type c = ''tool_code'' \<and> isGeminiFunctionCall (data c)
          then ''tool_calls'' else ''stop'')
   \<and> last (stream platform model_name outputMode chunks) = Done"
proof -
  have "\<not> has_tool_call (snd (createOpenAIStreamTransformer platform model_name outputMode))"
    by (simp add: initial_state has_tool_call_def)
  then have "has_tool_call
      (fst (run_chunks platform (fst (createOpenAIStreamTransformer platform model_name outputMode))
         (snd (createOpenAIStreamTransformer platform model_name outputMode)) chunks)) =
      (\<exists>c \<in> set chunks. type c = ''tool_code'' \<and> isGeminiFunctionCall (data c))"
    by (simp add: has_tool_call_run assigns_tool_call_def)
  then have "finish_reason (terminal (stream platform model_name outputMode chunks)) =
     Str (if \<exists>c \<in> set chunks. type c = ''tool_code'' \<and> isGeminiFunctionCall (data c)
          then ''tool_calls'' else ''stop'')"
    by (simp only: terminal_stream finish_reason_flush)
  moreover have "last (stream platform model_name outputMode chunks) = Done"
    by (simp add: stream_def flush_def Let_def split: prod.splits)
  ultimately show ?thesis by (rule conjI)
qed

theorem finish_reason_of_stream_witness:
  "finish_reason
     (terminal (stream example_platform ''gemini-2.5-pro'' (Some ''openai'')
        [example_text_chunk, example_tool_chunk])) = Str ''tool_calls''
   \<and> finish_reason
     (terminal (stream example_platform ''gemini-2.5-pro'' (Some ''openai'')
        [example_usage_chunk, example_text_chunk])) = Str ''stop''"
  using finish_reason_of_stream [of example_platform "''gemini-2.5-pro''" "Some ''openai''"
      "[example_text_chunk, example_tool_chunk]"]
    finish_reason_of_stream [of example_platform "''gemini-2.5-pro''" "Some ''openai''"
      "[example_usage_chunk, example_text_chunk]"]
  by (simp add: example_text_chunk_def example_tool_chunk_def example_usage_chunk_def
      isGeminiFunctionCall_def)

section \<open>Malformed chunks\<close>

lemma switch_chunk_malformed:
  assumes "recognized (type chunk)" and "\<not> shape_check chunk"
  shows "switch_chunk platform tr st chunk =
           (st, if type chunk = ''usage'' then None else Some (Obj []))"
proof -
  from assms(1) consider "type chunk = ''text''"
    | "type chunk = ''thinking_content''"
    | "type chunk = ''real_thinking''"
    | "type chunk = ''reasoning''"
    | "type chunk = ''reasoning_end''"
    | "type chunk = ''tool_code''"
    | "type chunk = ''native_tool''"
    | "type chunk = ''grounding_metadata''"
    | "type chunk = ''usage''"
    by (auto simp: recognized_def)
  then show ?thesis
  proof cases
    case 1
    with assms(2) show ?thesis by (simp add: switch_chunk_def shape_check_def)
  next
    case 2
    with assms(2) show ?thesis by (simp add: switch_chunk_def shape_check_def)
  next
    case 3
    with assms(2) show ?thesis by (simp add: switch_chunk_def shape_check_def)
  next
    case 4
    with assms(2) show ?thesis by (simp add: switch_chunk_def shape_check_def)
  next
    case 5
    with assms(2) show ?thesis by (simp add: switch_chunk_def shape_check_def)
  next
    case 6
    with assms(2) show ?thesis by (simp add: switch_chunk_def shape_check_def)
  next
    case 7
    with assms(2) show ?thesis by (simp add: switch_chunk_def shape_check_def)
  next
    case 8
    with assms(2) show ?thesis by (simp add: switch_chunk_def shape_check_def)
  next
    case 9
    with assms(2) show ?thesis by (simp add: switch_chunk_def shape_check_def)
  qed
qed

text \<open>
  Claim C10. A chunk of a recognised kind whose payload fails the shape check of its kind
  makes \<^verbatim>\<open>transform\<close> enqueue no frame and leaves every variable of the stream as it
  was: the first-chunk flag, the tool-call id and name, and the usage.
\<close>

theorem malformed_chunk_ignored:
  assumes "recognized (type chunk)" and "\<not> shape_check chunk"
  shows "transform platform tr st chunk = (st, [])"
  using switch_chunk_malformed [OF assms, of platform tr st]
  by (simp add: transform_def keys_def)

theorem malformed_chunk_ignored_witness:
  "recognized (type example_bad_chunk) \<and> \<not> shape_check example_bad_chunk
   \<and> transform example_platform
        (fst (createOpenAIStreamTransformer example_platform ''gemini-2.5-pro'' (Some ''r1'')))
        (snd (createOpenAIStreamTransformer example_platform ''gemini-2.5-pro'' (Some ''r1'')))
        example_bad_chunk =
       (snd (createOpenAIStreamTransformer example_platform ''gemini-2.5-pro'' (Some ''r1'')), [])"
proof -
  have r: "recognized (type example_bad_chunk)"
    by (simp add: recognized_def example_bad_chunk_def)
  have s: "\<not> shape_check example_bad_chunk"
    by (simp add: shape_check_def example_bad_chunk_def isGeminiFunctionCall_def)
  from r s malformed_chunk_ignored [OF r s] show ?thesis by simp
qed

section \<open>Fields of the r1 mode\<close>

lemma chunk_kind_cases:
  obtains (plain_text) "type c = ''text''"
  | (thinking_content) "type c = ''thinking_content''"
  | (real_thinking) "type c = ''real_thinking''"
  | (reasoning) "type c = ''reasoning''"
  | (reasoning_end) "type c = ''reasoning_end''"
  | (tool_code) "type c = ''tool_code''"
  | (native_tool) "type c = ''native_tool''"
  | (grounding_metadata) "type c = ''grounding_metadata''"
  | (usage) "type c = ''usage''"
  | (other) "\<not> recognized (type c)"
  by (cases "recognized (type c)") (auto simp: recognized_def)

lemma delta_openAIChunk: "delta (openAIChunk platform tr d) = d"
  by (simp add: delta_def openAIChunk_def js_index_def)

lemma openAIChunk_details: "\<not> js_in ''completion_tokens_details'' (openAIChunk platform tr d)"
  by (simp add: openAIChunk_def)

lemma frames_of_transform:
  "snd (transform platform tr st c) = [] \<or>
   (\<exists>d. snd (switch_chunk platform tr st c) = Some d \<and>
        snd (transform platform tr st c) = [Data (openAIChunk platform tr d)])"
  by (cases "switch_chunk platform tr st c") (auto simp: transform_def split: option.splits)

lemma frames_of_run:
  assumes "\<And>st c. \<forall>f \<in> set (snd (transform platform tr st c)). P f"
  shows "\<forall>f \<in> set (concat (snd (run_chunks platform tr st chunks))). P f"
proof (induction chunks arbitrary: st)
  case Nil
  then show ?case by simp
next
  case (Cons c chunks)
  show ?case
    using Cons.IH [of "fst (transform platform tr st c)"] assms [of st c]
    by (auto split: prod.splits)
qed

lemma r1_delta:
  assumes "isR1 tr" and "snd (switch_chunk platform tr st c) = Some d"
  shows "\<not> js_in ''reasoning_finished'' d"
  using assms(2)
proof (cases c rule: chunk_kind_cases)
  case other
  with assms show ?thesis by (auto simp: switch_chunk_def recognized_def)
qed (use assms in \<open>auto simp: switch_chunk_def Let_def split: if_splits\<close>)

lemma r1_transform:
  assumes "isR1 tr"
  shows "\<forall>f \<in> set (snd (transform platform tr st c)). \<not> js_in ''reasoning_finished'' (delta (payload f))"
  using frames_of_transform [of platform tr st c] r1_delta [OF assms, of platform st c]
  by (auto simp: delta_openAIChunk)

lemma details_transform:
  "\<forall>f \<in> set (snd (transform platform tr st c)). \<not> js_in ''completion_tokens_details'' (payload f)"
  using frames_of_transform [of platform tr st c]
  by (auto simp: openAIChunk_details)

lemma r1_flush:
  "\<forall>f \<in> set (flush platform tr st). \<not> js_in ''reasoning_finished'' (delta (payload f))"
  by (simp add: flush_def Let_def delta_def js_index_def map_of_assign)

lemma details_flush:
  "js_get ''completion_tokens_details'' (payload (hd (flush platform tr st))) =
     (if isR1 tr then Obj [(''reasoning_tokens'', Num 0)] else Undef)"
  by (simp add: flush_def Let_def map_of_assign)

lemma no_details_flush:
  "\<not> isR1 tr \<Longrightarrow>
   \<forall>f \<in> set (flush platform tr st). \<not> js_in ''completion_tokens_details'' (payload f)"
  by (simp add: flush_def Let_def map_fst_assign)

lemma isR1_mode:
  "isR1 (fst (createOpenAIStreamTransformer platform model_name outputMode)) =
     (case outputMode of None \<Rightarrow> False | Some m \<Rightarrow> toLowerCase m = ''r1'')"
proof -
  have "toLowerCase ''tagged'' \<noteq> ''r1''" by code_simp
  then show ?thesis
    by (simp add: createOpenAIStreamTransformer_def Let_def toLowerCase_def split: option.splits)
qed

lemma stream_frames:
  "stream platform model_name outputMode chunks =
     concat (snd (run_chunks platform (fst (createOpenAIStreamTransformer platform model_name outputMode))
        (snd (createOpenAIStreamTransformer platform model_name outputMode)) chunks))
     @ flush platform (fst (createOpenAIStreamTransformer platform model_name outputMode))
        (fst (run_chunks platform (fst (createOpenAIStreamTransformer platform model_name outputMode))
           (snd (createOpenAIStreamTransformer platform model_name outputMode)) chunks))"
  by (simp add: stream_def split: prod.splits)

text \<open>
  Claim C7. A transformer is in r1 mode exactly when its output mode, lower-cased, is
  \<^verbatim>\<open>r1\<close>. In r1 mode no frame of a stream has a \<^verbatim>\<open>reasoning_finished\<close> field in its
  delta, and the terminal frame has \<^verbatim>\<open>completion_tokens_details\<close> with
  \<^verbatim>\<open>reasoning_tokens\<close> equal to 0. In every other mode no frame of a stream has a
  \<^verbatim>\<open>completion_tokens_details\<close> field.
\<close>

theorem r1_mode_fields:
  "isR1 (fst (createOpenAIStreamTransformer platform model_name outputMode)) =
     (case outputMode of None \<Rightarrow> False | Some m \<Rightarrow> toLowerCase m = ''r1'')
   \<and> (isR1 (fst (createOpenAIStreamTransformer platform model_name outputMode)) \<longrightarrow>
        (\<forall>f \<in> set (stream platform model_name outputMode chunks).
           \<not> js_in ''reasoning_finished'' (delta (payload f)))
        \<and> js_get ''completion_tokens_details''
             (terminal (stream platform model_name outputMode chunks)) =
            Obj [(''reasoning_tokens'', Num 0)])
   \<and> (\<not> isR1 (fst (createOpenAIStreamTransformer platform model_name outputMode)) \<longrightarrow>
        (\<forall>f \<in> set (stream platform model_name outputMode chunks).
           \<not> js_in ''completion_tokens_details'' (payload f)))"
proof (intro conjI impI)
  show "isR1 (fst (createOpenAIStreamTransformer platform model_name outputMode)) =
     (case outputMode of None \<Rightarrow> False | Some m \<Rightarrow> toLowerCase m = ''r1'')"
    by (rule isR1_mode)
next
  assume r1: "isR1 (fst (createOpenAIStreamTransformer platform model_name outputMode))"
  show "\<forall>f \<in> set (stream platform model_name outputMode chunks).
           \<not> js_in ''reasoning_finished'' (delta (payload f))"
    using frames_of_run [where P = "\<lambda>f. \<not> js_in ''reasoning_finished'' (delta (payload f))",
        OF r1_transform [OF r1]] r1_flush
    by (simp add: stream_frames ball_Un)
  show "js_get ''completion_tokens_details''
             (terminal (stream platform model_name outputMode chunks)) =
            Obj [(''reasoning_tokens'', Num 0)]"
    using r1 by (simp only: terminal_stream details_flush if_True)
next
  assume n: "\<not> isR1 (fst (createOpenAIStreamTransformer platform model_name outputMode))"
  show "\<forall>f \<in> set (stream platform model_name outputMode chunks).
           \<not> js_in ''completion_tokens_details'' (payload f)"
    using frames_of_run [where P = "\<lambda>f. \<not> js_in ''completion_tokens_details'' (payload f)",
        OF details_transform] no_details_flush [OF n]
    by (simp add: stream_frames ball_Un)
qed

lemma hd_stream:
  "hd (stream platform model_name outputMode chunks)
     \<in> set (stream platform model_name outputMode chunks)"
  by (rule hd_in_set) (simp add: stream_frames flush_def Let_def)

theorem r1_mode_fields_witness:
  "isR1 (fst (createOpenAIStreamTransformer example_platform ''gemini-2.5-pro'' (Some ''R1'')))
   \<and> \<not> js_in ''reasoning_finished''
         (delta (payload (hd (stream example_platform ''gemini-2.5-pro'' (Some ''R1'')
            [example_end_chunk, example_text_chunk]))))
   \<and> js_get ''completion_tokens_details''
         (terminal (stream example_platform ''gemini-2.5-pro'' (Some ''R1'')
            [example_end_chunk, example_text_chunk])) = Obj [(''reasoning_tokens'', Num 0)]
   \<and> \<not> isR1 (fst (createOpenAIStreamTransformer example_platform ''gemini-2.5-pro''
            (Some ''openai'')))
   \<and> \<not> js_in ''completion_tokens_details''
         (payload (hd (stream example_platform ''gemini-2.5-pro'' (Some ''openai'')
            [example_end_chunk, example_text_chunk])))"
proof -
  have l1: "toLowerCase ''R1'' = ''r1''" by code_simp
  have l2: "toLowerCase ''openai'' \<noteq> ''r1''" by code_simp
  note w1 = r1_mode_fields [of example_platform "''gemini-2.5-pro''" "Some ''R1''"
      "[example_end_chunk, example_text_chunk]"]
  note w2 = r1_mode_fields [of example_platform "''gemini-2.5-pro''" "Some ''openai''"
      "[example_end_chunk, example_text_chunk]"]
  have r1: "isR1 (fst (createOpenAIStreamTransformer example_platform ''gemini-2.5-pro''
      (Some ''R1'')))"
    using w1 [THEN conjunct1] l1 by simp
  have n: "\<not> isR1 (fst (createOpenAIStreamTransformer example_platform ''gemini-2.5-pro''
      (Some ''openai'')))"
    using w2 [THEN conjunct1] l2 by simp
  from w1 [THEN conjunct2, THEN conjunct1] r1
  have a: "\<forall>f \<in> set (stream example_platform ''gemini-2.5-pro'' (Some ''R1'')
            [example_end_chunk, example_text_chunk]).
           \<not> js_in ''reasoning_finished'' (delta (payload f))"
    and b: "js_get ''completion_tokens_details''
         (terminal (stream example_platform ''gemini-2.5-pro'' (Some ''R1'')
            [example_end_chunk, example_text_chunk])) = Obj [(''reasoning_tokens'', Num 0)]"
    by blast+
  from w2 [THEN conjunct2, THEN conjunct2] n
  have c: "\<forall>f \<in> set (stream example_platform ''gemini-2.5-pro'' (Some ''openai'')
            [example_end_chunk, example_text_chunk]).
           \<not> js_in ''completion_tokens_details'' (payload f)"
    by blast
  from r1 a [THEN bspec, OF hd_stream] b n c [THEN bspec, OF hd_stream]
  show ?thesis by (intro conjI)
qed

section \<open>First-chunk role\<close>

lemma firstChunk_switch:
  "firstChunk (fst (switch_chunk platform tr st c)) = (firstChunk st \<and> \<not> opens c)"
proof (cases c rule: chunk_kind_cases)
  case other
  then show ?thesis by (auto simp: switch_chunk_def recognized_def opens_def)
qed (auto simp: switch_chunk_def opens_def Let_def)

lemma role_switch:
  assumes "snd (switch_chunk platform tr st c) = Some d"
  shows "js_in ''role'' d = (firstChunk st \<and> opens c)"
  using assms
proof (cases c rule: chunk_kind_cases)
  case other
  with assms show ?thesis by (auto simp: switch_chunk_def recognized_def opens_def)
qed (auto simp: switch_chunk_def opens_def Let_def split: if_splits)

lemma opening_switch:
  assumes "firstChunk st" and "opens c"
  shows "\<exists>d. snd (switch_chunk platform tr st c) = Some d \<and> keys d \<noteq> []
           \<and> js_get ''role'' d = Str ''assistant''
           \<and> (type c = ''tool_code'' \<longrightarrow> js_in ''content'' d \<and> js_get ''content'' d = Null)"
  using assms(2) unfolding opens_def
proof (elim disjE conjE)
  assume "type c = ''text''" and "typeof (data c) = ''string''"
  with assms(1) show ?thesis by (simp add: switch_chunk_def keys_def)
next
  assume "type c = ''thinking_content''" and "typeof (data c) = ''string''"
  with assms(1) show ?thesis by (simp add: switch_chunk_def keys_def)
next
  assume "type c = ''tool_code''" and "isGeminiFunctionCall (data c)"
  with assms(1) show ?thesis by (simp add: switch_chunk_def keys_def Let_def)
qed

lemma firstChunk_transform:
  "firstChunk (fst (transform platform tr st c)) = (firstChunk st \<and> \<not> opens c)"
  by (simp only: fst_transform firstChunk_switch)

lemma no_role_transform:
  assumes "\<not> (firstChunk st \<and> opens c)"
  shows "\<forall>f \<in> set (snd (transform platform tr st c)). \<not> js_in ''role'' (delta (payload f))"
  using frames_of_transform [of platform tr st c] role_switch [of platform tr st c] assms
  by (auto simp: delta_openAIChunk)

lemma role_transform:
  assumes "firstChunk st" and "opens c"
  shows "\<exists>p. snd (transform platform tr st c) = [Data p]
           \<and> js_get ''role'' (delta p) = Str ''assistant''
           \<and> (type c = ''tool_code'' \<longrightarrow>
                js_in ''content'' (delta p) \<and> js_get ''content'' (delta p) = Null)"
proof -
  from opening_switch [OF assms, of platform tr] obtain d where
    d: "snd (switch_chunk platform tr st c) = Some d" "keys d \<noteq> []"
      "js_get ''role'' d = Str ''assistant''"
      "type c = ''tool_code'' \<longrightarrow> js_in ''content'' d \<and> js_get ''content'' d = Null"
    by blast
  then have "snd (transform platform tr st c) = [Data (openAIChunk platform tr d)]"
    by (cases "switch_chunk platform tr st c") (simp add: transform_def)
  with d show ?thesis by (simp add: delta_openAIChunk)
qed

lemma run_chunks_append:
  "run_chunks platform tr st (xs @ ys) =
     (fst (run_chunks platform tr (fst (run_chunks platform tr st xs)) ys),
      snd (run_chunks platform tr st xs)
        @ snd (run_chunks platform tr (fst (run_chunks platform tr st xs)) ys))"
  by (induction xs arbitrary: st) (simp_all split: prod.splits)

lemma run_before_opening:
  assumes "\<forall>c \<in> set chunks. \<not> opens c"
  shows "firstChunk (fst (run_chunks platform tr st chunks)) = firstChunk st
         \<and> (\<forall>f \<in> set (concat (snd (run_chunks platform tr st chunks))).
               \<not> js_in ''role'' (delta (payload f)))"
  using assms
proof (induction chunks arbitrary: st)
  case Nil
  then show ?case by simp
next
  case (Cons c chunks)
  then have c: "\<not> opens c" and rest: "\<forall>c \<in> set chunks. \<not> opens c" by simp_all
  from c have f: "firstChunk (fst (transform platform tr st c)) = firstChunk st"
    by (simp add: firstChunk_transform)
  from c have n: "\<forall>f \<in> set (snd (transform platform tr st c)).
      \<not> js_in ''role'' (delta (payload f))"
    by (intro no_role_transform) simp
  from Cons.IH [OF rest, of "fst (transform platform tr st c)"] f n
  show ?case by (auto split: prod.splits)
qed

lemma run_after_opening:
  assumes "\<not> firstChunk st"
  shows "\<forall>f \<in> set (concat (snd (run_chunks platform tr st chunks))).
           \<not> js_in ''role'' (delta (payload f))"
  using assms
proof (induction chunks arbitrary: st)
  case Nil
  then show ?case by simp
next
  case (Cons c chunks)
  then have f: "\<not> firstChunk (fst (transform platform tr st c))"
    by (simp add: firstChunk_transform)
  from Cons.prems have n: "\<forall>f \<in> set (snd (transform platform tr st c)).
      \<not> js_in ''role'' (delta (payload f))"
    by (intro no_role_transform) simp
  from Cons.IH [OF f] n show ?case by (auto split: prod.splits)
qed

lemma no_role_flush:
  "\<forall>f \<in> set (flush platform tr st). \<not> js_in ''role'' (delta (payload f))"
  by (simp add: flush_def Let_def delta_def js_index_def map_of_assign)

text \<open>
  Claim C8. In a stream whose first opening chunk is \<open>c\<close> (no chunk before it opens the
  answer), the frame emitted for \<open>c\<close> follows the frames of the earlier chunks and its
  delta has the role \<^verbatim>\<open>assistant\<close>, and also the content \<^verbatim>\<open>null\<close> when \<open>c\<close> is a
  \<^verbatim>\<open>tool_code\<close> chunk; no frame before it and no frame after it, up to the end of the
  stream, has a role in its delta.
\<close>

theorem first_chunk_role:
  assumes "\<forall>b \<in> set before. \<not> opens b" and "opens c"
  shows "\<exists>p later.
           stream platform model_name outputMode (before @ c # after) =
             frames_of_chunks platform model_name outputMode before @ Data p # later
           \<and> (\<forall>f \<in> set (frames_of_chunks platform model_name outputMode before).
                 \<not> js_in ''role'' (delta (payload f)))
           \<and> js_get ''role'' (delta p) = Str ''assistant''
           \<and> (type c = ''tool_code'' \<longrightarrow>
                js_in ''content'' (delta p) \<and> js_get ''content'' (delta p) = Null)
           \<and> (\<forall>f \<in> set later. \<not> js_in ''role'' (delta (payload f)))"
proof -
  define tr where "tr = fst (createOpenAIStreamTransformer platform model_name outputMode)"
  define st0 where "st0 = snd (createOpenAIStreamTransformer platform model_name outputMode)"
  define st1 where "st1 = fst (run_chunks platform tr st0 before)"
  define st2 where "st2 = fst (transform platform tr st1 c)"
  define st3 where "st3 = fst (run_chunks platform tr st2 after)"
  define later where
    "later = concat (snd (run_chunks platform tr st2 after)) @ flush platform tr st3"
  have "firstChunk st0" by (simp add: st0_def initial_state)
  with run_before_opening [OF assms(1), of platform tr st0]
  have first: "firstChunk st1"
    and quiet: "\<forall>f \<in> set (concat (snd (run_chunks platform tr st0 before))).
      \<not> js_in ''role'' (delta (payload f))"
    by (simp_all add: st1_def)
  from role_transform [OF first assms(2), of platform tr] obtain p where
    p: "snd (transform platform tr st1 c) = [Data p]"
      "js_get ''role'' (delta p) = Str ''assistant''"
      "type c = ''tool_code'' \<longrightarrow> js_in ''content'' (delta p) \<and> js_get ''content'' (delta p) = Null"
    by blast
  have "\<not> firstChunk st2"
    using assms(2) by (simp add: st2_def firstChunk_transform)
  then have "\<forall>f \<in> set (concat (snd (run_chunks platform tr st2 after))).
      \<not> js_in ''role'' (delta (payload f))"
    by (rule run_after_opening)
  then have silent: "\<forall>f \<in> set later. \<not> js_in ''role'' (delta (payload f))"
    using no_role_flush [of platform tr st3] by (simp add: later_def ball_Un)
  have run: "run_chunks platform tr st0 (before @ c # after) =
      (st3, snd (run_chunks platform tr st0 before) @ [Data p] # snd (run_chunks platform tr st2 after))"
    using p(1) by (auto simp: run_chunks_append st1_def st2_def st3_def split: prod.splits)
  have "stream platform model_name outputMode (before @ c # after) =
      frames_of_chunks platform model_name outputMode before @ Data p # later"
    by (simp add: stream_frames frames_of_chunks_def tr_def [symmetric] st0_def [symmetric] run
        later_def)
  with quiet p(2,3) silent show ?thesis
    by (auto simp: frames_of_chunks_def tr_def st0_def)
qed

theorem first_chunk_role_witness:
  "\<not> opens example_usage_chunk \<and> \<not> opens example_end_chunk \<and> opens example_tool_chunk
   \<and> \<not> js_in ''role''
         (delta (payload (stream example_platform ''gemini-2.5-pro'' (Some ''openai'')
            [example_usage_chunk, example_end_chunk, example_tool_chunk, example_text_chunk] ! 0)))
   \<and> js_get ''role''
         (delta (payload (stream example_platform ''gemini-2.5-pro'' (Some ''openai'')
            [example_usage_chunk, example_end_chunk, example_tool_chunk, example_text_chunk] ! 1))) =
       Str ''assistant''
   \<and> js_get ''content''
         (delta (payload (stream example_platform ''gemini-2.5-pro'' (Some ''openai'')
            [example_usage_chunk, example_end_chunk, example_tool_chunk, example_text_chunk] ! 1))) =
       Null
   \<and> \<not> js_in ''role''
         (delta (payload (stream example_platform ''gemini-2.5-pro'' (Some ''openai'')
            [example_usage_chunk, example_end_chunk, example_tool_chunk, example_text_chunk] ! 2)))"
proof -
  define frames where
    "frames = stream example_platform ''gemini-2.5-pro'' (Some ''openai'')
       [example_usage_chunk, example_end_chunk, example_tool_chunk, example_text_chunk]"
  define earlier where
    "earlier = frames_of_chunks example_platform ''gemini-2.5-pro'' (Some ''openai'')
       [example_usage_chunk, example_end_chunk]"
  have n1: "\<not> opens example_usage_chunk"
    by (simp add: opens_def example_usage_chunk_def)
  have n2: "\<not> opens example_end_chunk"
    by (simp add: opens_def example_end_chunk_def)
  have o: "opens example_tool_chunk"
    by (simp add: opens_def example_tool_chunk_def isGeminiFunctionCall_def)
  have t: "type example_tool_chunk = ''tool_code''"
    by (simp add: example_tool_chunk_def)
  have quiet: "\<forall>b \<in> set [example_usage_chunk, example_end_chunk]. \<not> opens b"
    using n1 n2 by simp
  from first_chunk_role [OF quiet o, of example_platform "''gemini-2.5-pro''" "Some ''openai''"
      "[example_text_chunk]"]
  obtain p later where
    eq: "frames = earlier @ Data p # later"
    and before: "\<forall>f \<in> set earlier. \<not> js_in ''role'' (delta (payload f))"
    and role: "js_get ''role'' (delta p) = Str ''assistant''"
    and content: "js_get ''content'' (delta p) = Null"
    and after: "\<forall>f \<in> set later. \<not> js_in ''role'' (delta (payload f))"
    using t by (auto simp: frames_def earlier_def)
  have l1: "length earlier = 1" unfolding earlier_def by code_simp
  have l: "length frames = 5" unfolding frames_def by code_simp
  from eq l l1 have l2: "length later = 3" by simp
  from eq l1 have at1: "frames ! 1 = Data p" by (simp add: nth_append)
  from eq l1 have "frames ! 0 = earlier ! 0" by (simp add: nth_append)
  with l1 have at0: "frames ! 0 \<in> set earlier" by simp
  from eq l1 have "frames ! 2 = later ! 0" by (simp add: nth_append)
  with l2 have at2: "frames ! 2 \<in> set later" by simp
  from before at0 have r0: "\<not> js_in ''role'' (delta (payload (frames ! 0)))" by blast
  from after at2 have r2: "\<not> js_in ''role'' (delta (payload (frames ! 2)))" by blast
  from role at1 have r1: "js_get ''role'' (delta (payload (frames ! 1))) = Str ''assistant''"
    by simp
  from content at1 have c1: "js_get ''content'' (delta (payload (frames ! 1))) = Null"
    by simp
  from n1 n2 o r0 r1 c1 r2 show ?thesis unfolding frames_def by (intro conjI)
qed

section \<open>Independent streams\<close>

text \<open>
  The claim as stated fails: the two example platforms give the same stream id and the
  same clock and differ in the later random ids, and the frames of the two streams differ
  after the stream id and the creation time are redacted, in the id of the tool call.
\<close>

theorem independent_streams_counterexample:
  "map (redact_frame redact_stream_fields)
     (stream example_platform ''gemini-2.5-pro'' (Some ''openai'') [example_tool_chunk]) \<noteq>
   map (redact_frame redact_stream_fields)
     (stream example_other_platform ''gemini-2.5-pro'' (Some ''openai'') [example_tool_chunk])"
  by code_simp

lemma redact_openAIChunk:
  "redact_ids (openAIChunk platform tr d) =
     Obj [(''id'', Str []),
          (''object'', Str (OPENAI_CHAT_COMPLETION_OBJECT platform)),
          (''created'', Num 0),
          (''model'', Str (model tr)),
          (''choices'',
           Arr [Obj [(''index'', Num 0),
                     (''delta'', redact_delta d),
                     (''finish_reason'', Null),
                     (''logprobs'', Null),
                     (''matched_stop'', Null)]]),
          (''usage'', Null)]"
  by (simp add: redact_ids_def redact_stream_fields_def openAIChunk_def redact_choice_def)

lemma in_step_switch:
  assumes "in_step s t" and "isR1 tr = isR1 tr'"
    and "JSON_stringify p = JSON_stringify p'"
  shows "in_step (fst (switch_chunk p tr s c)) (fst (switch_chunk p' tr' t c))
         \<and> map_option (\<lambda>d. (redact_delta d, keys d)) (snd (switch_chunk p tr s c)) =
           map_option (\<lambda>d. (redact_delta d, keys d)) (snd (switch_chunk p' tr' t c))"
proof (cases c rule: chunk_kind_cases)
  case other
  with assms show ?thesis by (auto simp: switch_chunk_def recognized_def in_step_def)
next
  case tool_code
  with assms show ?thesis
    by (simp add: switch_chunk_def in_step_def has_tool_call_def Let_def redact_delta_def
        redact_tool_call_def keys_def)
qed (use assms in \<open>simp_all add: switch_chunk_def in_step_def has_tool_call_def Let_def
        redact_delta_def keys_def\<close>)

lemma in_step_transform:
  assumes "in_step s t" and "isR1 tr = isR1 tr'" and "model tr = model tr'"
    and "JSON_stringify p = JSON_stringify p'"
    and "OPENAI_CHAT_COMPLETION_OBJECT p = OPENAI_CHAT_COMPLETION_OBJECT p'"
  shows "in_step (fst (transform p tr s c)) (fst (transform p' tr' t c))
         \<and> map (redact_frame redact_ids) (snd (transform p tr s c)) =
           map (redact_frame redact_ids) (snd (transform p' tr' t c))"
proof -
  note sw = in_step_switch [OF assms(1,2,4), of c]
  from sw have step: "in_step (fst (transform p tr s c)) (fst (transform p' tr' t c))"
    by (simp only: fst_transform)
  obtain s1 d1 where a: "switch_chunk p tr s c = (s1, d1)"
    by (cases "switch_chunk p tr s c")
  obtain t1 e1 where b: "switch_chunk p' tr' t c = (t1, e1)"
    by (cases "switch_chunk p' tr' t c")
  from sw a b have rel: "map_option (\<lambda>d. (redact_delta d, keys d)) d1 =
      map_option (\<lambda>d. (redact_delta d, keys d)) e1"
    by simp
  have "map (redact_frame redact_ids) (snd (transform p tr s c)) =
      map (redact_frame redact_ids) (snd (transform p' tr' t c))"
  proof (cases d1)
    case None
    with rel have "e1 = None" by simp
    with None a b show ?thesis by (simp add: transform_def)
  next
    case (Some d)
    with rel obtain e where e: "e1 = Some e" "redact_delta d = redact_delta e" "keys d = keys e"
      by (cases e1) auto
    with Some a b assms(3,5) show ?thesis
      by (simp add: transform_def redact_openAIChunk)
  qed
  with step show ?thesis by (rule conjI)
qed

lemma run_chunks_step:
  "run_chunks p tr s (c # chunks) =
     (fst (run_chunks p tr (fst (transform p tr s c)) chunks),
      snd (transform p tr s c) # snd (run_chunks p tr (fst (transform p tr s c)) chunks))"
  by (simp split: prod.splits)

lemma in_step_run:
  assumes "in_step s t" and "isR1 tr = isR1 tr'" and "model tr = model tr'"
    and "JSON_stringify p = JSON_stringify p'"
    and "OPENAI_CHAT_COMPLETION_OBJECT p = OPENAI_CHAT_COMPLETION_OBJECT p'"
  shows "in_step (fst (run_chunks p tr s chunks)) (fst (run_chunks p' tr' t chunks))
         \<and> map (redact_frame redact_ids) (concat (snd (run_chunks p tr s chunks))) =
           map (redact_frame redact_ids) (concat (snd (run_chunks p' tr' t chunks)))"
  using assms(1)
proof (induction chunks arbitrary: s t)
  case Nil
  then show ?case by simp
next
  case (Cons c chunks)
  note one = in_step_transform [OF Cons.prems assms(2-5), of c]
  from Cons.IH [OF one [THEN conjunct1]] one [THEN conjunct2]
  show ?case by (simp add: run_chunks_step del: run_chunks.simps)
qed

lemma in_step_flush:
  assumes "in_step s t" and "isR1 tr = isR1 tr'" and "model tr = model tr'"
    and "OPENAI_CHAT_COMPLETION_OBJECT p = OPENAI_CHAT_COMPLETION_OBJECT p'"
  shows "map (redact_frame redact_ids) (flush p tr s) =
         map (redact_frame redact_ids) (flush p' tr' t)"
proof -
  have "(case toolCallId s of None \<Rightarrow> False | Some i \<Rightarrow> i \<noteq> []) =
      (case toolCallId t of None \<Rightarrow> False | Some i \<Rightarrow> i \<noteq> [])"
    using assms(1) by (simp add: in_step_def has_tool_call_def)
  moreover have "usageData s = usageData t" using assms(1) by (simp add: in_step_def)
  ultimately show ?thesis
    using assms(2-4)
    by (simp add: flush_def Let_def redact_ids_def redact_stream_fields_def redact_choice_def
        redact_delta_def map_of_assign)
qed

text \<open>
  Claim C9, as amended. Two transformers created for the same model string and output
  mode, each with its own random ids and clock, and fed the same chunks, enqueue the same
  frames once the stream id, the creation time and the ids of the tool calls are
  redacted.
\<close>

theorem independent_streams_agree:
  assumes "JSON_stringify p = JSON_stringify p'"
    and "OPENAI_CHAT_COMPLETION_OBJECT p = OPENAI_CHAT_COMPLETION_OBJECT p'"
  shows "map (redact_frame redact_ids) (stream p model_name outputMode chunks) =
         map (redact_frame redact_ids) (stream p' model_name outputMode chunks)"
proof -
  define tr where "tr = fst (createOpenAIStreamTransformer p model_name outputMode)"
  define tr' where "tr' = fst (createOpenAIStreamTransformer p' model_name outputMode)"
  define s where "s = snd (createOpenAIStreamTransformer p model_name outputMode)"
  define t where "t = snd (createOpenAIStreamTransformer p' model_name outputMode)"
  have r: "isR1 tr = isR1 tr'" by (simp add: tr_def tr'_def isR1_mode)
  have m: "model tr = model tr'"
    by (simp add: tr_def tr'_def createOpenAIStreamTransformer_def Let_def)
  have i: "in_step s t" by (simp add: s_def t_def initial_state in_step_def has_tool_call_def)
  note run = in_step_run [OF i r m assms, of chunks]
  note fl = in_step_flush [OF run [THEN conjunct1] r m assms(2)]
  show ?thesis
    unfolding stream_frames tr_def [symmetric] tr'_def [symmetric] s_def [symmetric]
      t_def [symmetric]
    using run [THEN conjunct2] fl by simp
qed

theorem independent_streams_agree_witness:
  "JSON_stringify example_platform = JSON_stringify example_other_platform
   \<and> OPENAI_CHAT_COMPLETION_OBJECT example_platform =
       OPENAI_CHAT_COMPLETION_OBJECT example_other_platform
   \<and> stream example_platform ''gemini-2.5-pro'' (Some ''openai'')
         [example_usage_chunk, example_tool_chunk, example_text_chunk] \<noteq>
       stream example_other_platform ''gemini-2.5-pro'' (Some ''openai'')
         [example_usage_chunk, example_tool_chunk, example_text_chunk]
   \<and> map (redact_frame redact_ids)
         (stream example_platform ''gemini-2.5-pro'' (Some ''openai'')
            [example_usage_chunk, example_tool_chunk, example_text_chunk]) =
       map (redact_frame redact_ids)
         (stream example_other_platform ''gemini-2.5-pro'' (Some ''openai'')
            [example_usage_chunk, example_tool_chunk, example_text_chunk])"
proof -
  have a: "JSON_stringify example_platform = JSON_stringify example_other_platform"
    by (simp add: example_other_platform_def)
  have b: "OPENAI_CHAT_COMPLETION_OBJECT example_platform =
       OPENAI_CHAT_COMPLETION_OBJECT example_other_platform"
    by (simp add: example_other_platform_def)
  have c: "stream example_platform ''gemini-2.5-pro'' (Some ''openai'')
         [example_usage_chunk, example_tool_chunk, example_text_chunk] \<noteq>
       stream example_other_platform ''gemini-2.5-pro'' (Some ''openai'')
         [example_usage_chunk, example_tool_chunk, example_text_chunk]"
    by code_simp
  from a b c independent_streams_agree [OF a b] show ?thesis by (intro conjI)
qed

end
